theory Spec2Isabelle
  imports Main
begin

section \<open>The quint command-line drivers (src/quint/src/cliCommands.ts)\<close>

text \<open>
  The source file holds two revisions of \<^verbatim>\<open>cliCommands.ts\<close>; the model follows the later one
  (the one that creates an \<^verbatim>\<open>Evaluator\<close> itself and has \<^verbatim>\<open>expandOutputTemplate\<close>).
  JavaScript strings are modelled as \<^typ>\<open>string\<close> (ASCII text), \<^verbatim>\<open>bigint\<close> as \<^typ>\<open>int\<close>,
  array indices and sample counts as \<^typ>\<open>nat\<close>.
\<close>

subsection \<open>JavaScript string operations used by the drivers\<close>

text \<open>A string used as a condition is true unless it is empty; \<^verbatim>\<open>undefined\<close> is false.\<close>

definition truthy :: "string option \<Rightarrow> bool" where
  "truthy s = (case s of None \<Rightarrow> False | Some t \<Rightarrow> t \<noteq> [])"

text \<open>\<^verbatim>\<open>s.startsWith(p)\<close>, \<^verbatim>\<open>s.endsWith(p)\<close> and \<^verbatim>\<open>s.includes(p)\<close>.\<close>

fun startsWith :: "string \<Rightarrow> string \<Rightarrow> bool" where
  "startsWith s [] = True"
| "startsWith [] (p # ps) = False"
| "startsWith (c # cs) (p # ps) = (c = p \<and> startsWith cs ps)"

definition endsWith :: "string \<Rightarrow> string \<Rightarrow> bool" where
  "endsWith s p = startsWith (rev s) (rev p)"

fun includes_str :: "string \<Rightarrow> string \<Rightarrow> bool" where
  "includes_str [] p = (p = [])"
| "includes_str (c # cs) p = (startsWith (c # cs) p \<or> includes_str cs p)"

text \<open>
  \<^verbatim>\<open>GetSubstitution\<close> of ECMAScript for a string pattern (no captures): in the replacement
  text \<^verbatim>\<open>$$\<close> stands for a dollar sign, \<^verbatim>\<open>$&\<close> for the matched text, \<^verbatim>\<open>$`\<close> for the text
  before the match and \<^verbatim>\<open>$'\<close> for the text after it; every other character is itself.
\<close>

fun getSubstitution :: "string \<Rightarrow> string \<Rightarrow> string \<Rightarrow> string \<Rightarrow> string" where
  "getSubstitution matched pre post [] = []"
| "getSubstitution matched pre post [c] = [c]"
| "getSubstitution matched pre post (c # d # t) =
     (if c = CHR ''$'' \<and> d = CHR ''$'' then CHR ''$'' # getSubstitution matched pre post t
      else if c = CHR ''$'' \<and> d = CHR ''&'' then matched @ getSubstitution matched pre post t
      else if c = CHR ''$'' \<and> d = CHR 0x60 then pre @ getSubstitution matched pre post t
      else if c = CHR ''$'' \<and> d = CHR 0x27 then post @ getSubstitution matched pre post t
      else c # getSubstitution matched pre post (d # t))"

text \<open>
  \<^verbatim>\<open>s.replaceAll(p, r)\<close> for a non-empty string pattern \<open>p\<close>: the occurrences of \<open>p\<close> are
  found from left to right, each search starting after the previous occurrence.
  \<open>pre\<close> is the part of the string already scanned. The drivers only pass the two
  placeholders as patterns.
\<close>

function replaceAll_from :: "string \<Rightarrow> string \<Rightarrow> string \<Rightarrow> string \<Rightarrow> string" where
  "replaceAll_from p r pre [] = []"
| "replaceAll_from p r pre (c # cs) =
     (if p \<noteq> [] \<and> startsWith (c # cs) p
      then getSubstitution p pre (drop (length p - 1) cs) r
           @ replaceAll_from p r (pre @ p) (drop (length p - 1) cs)
      else c # replaceAll_from p r (pre @ [c]) cs)"
  by pat_completeness auto
termination
  by (relation "measure (\<lambda>(p, r, pre, s). length s)") auto

definition replaceAll :: "string \<Rightarrow> string \<Rightarrow> string \<Rightarrow> string" where
  "replaceAll s p r = replaceAll_from p r [] s"

text \<open>\<^verbatim>\<open>s.split(sep)\<close> for a one-character separator, and \<^verbatim>\<open>parts.join(sep)\<close>.\<close>

fun split :: "string \<Rightarrow> char \<Rightarrow> string list" where
  "split [] sep = [[]]"
| "split (c # cs) sep =
     (if c = sep then [] # split cs sep
      else (case split cs sep of [] \<Rightarrow> [[c]] | p # ps \<Rightarrow> (c # p) # ps))"

fun join :: "string list \<Rightarrow> string \<Rightarrow> string" where
  "join [] sep = []"
| "join [p] sep = p"
| "join (p # q # ps) sep = p @ sep @ join (q # ps) sep"

text \<open>
  \<^verbatim>\<open>index.toString()\<close> for a non-negative integer (an array index), in decimal, and
  \<^verbatim>\<open>seed.toString(16)\<close> for a big integer.
\<close>

definition digit_char :: "nat \<Rightarrow> char" where
  "digit_char d = ''0123456789abcdef'' ! d"

function toString_radix :: "nat \<Rightarrow> nat \<Rightarrow> string" where
  "toString_radix b n =
     (if b < 2 \<or> n < b then [digit_char n]
      else toString_radix b (n div b) @ [digit_char (n mod b)])"
  by pat_completeness auto
termination
  by (relation "measure (\<lambda>(b, n). n)") auto

declare toString_radix.simps [simp del]

definition number_toString :: "nat \<Rightarrow> string" where
  "number_toString n = toString_radix 10 n"

definition int_toString :: "int \<Rightarrow> string" where
  "int_toString i =
     (if i < 0 then CHR ''-'' # toString_radix 10 (nat (- i)) else toString_radix 10 (nat i))"

definition bigint_toString16 :: "int \<Rightarrow> string" where
  "bigint_toString16 i =
     (if i < 0 then CHR ''-'' # toString_radix 16 (nat (- i)) else toString_radix 16 (nat i))"

subsection \<open>\<^verbatim>\<open>BigInt(text)\<close>\<close>

text \<open>
  \<^verbatim>\<open>BigInt\<close> applied to a string (ECMAScript \<^verbatim>\<open>StringToBigInt\<close>): white space around the
  text is dropped; the empty text is \<open>0\<close>; otherwise the text is a decimal literal with
  an optional sign, or an unsigned literal with the prefix \<^verbatim>\<open>0x\<close>, \<^verbatim>\<open>0o\<close> or \<^verbatim>\<open>0b\<close>;
  anything else raises \<^verbatim>\<open>SyntaxError\<close>, which is \<open>None\<close> here.
\<close>

definition isWhiteSpace :: "char \<Rightarrow> bool" where
  "isWhiteSpace c = (c \<in> set [CHR 0x09, CHR 0x0A, CHR 0x0B, CHR 0x0C, CHR 0x0D, CHR 0x20])"

definition trim :: "string \<Rightarrow> string" where
  "trim s = rev (dropWhile isWhiteSpace (rev (dropWhile isWhiteSpace s)))"

definition digit_value :: "char \<Rightarrow> nat option" where
  "digit_value c =
     (let n = of_char c :: nat in
      if 48 \<le> n \<and> n \<le> 57 then Some (n - 48)
      else if 97 \<le> n \<and> n \<le> 102 then Some (n - 87)
      else if 65 \<le> n \<and> n \<le> 70 then Some (n - 55)
      else None)"

fun digits_value :: "nat \<Rightarrow> nat \<Rightarrow> string \<Rightarrow> nat option" where
  "digits_value b acc [] = Some acc"
| "digits_value b acc (c # cs) =
     (case digit_value c of
        None \<Rightarrow> None
      | Some d \<Rightarrow> if d < b then digits_value b (acc * b + d) cs else None)"

definition parse_digits :: "nat \<Rightarrow> string \<Rightarrow> int option" where
  "parse_digits b s = (if s = [] then None else map_option int (digits_value b 0 s))"

definition BigInt :: "string \<Rightarrow> int option" where
  "BigInt text =
     (let t = trim text in
      if t = [] then Some 0
      else if startsWith t ''0x'' \<or> startsWith t ''0X'' then parse_digits 16 (drop 2 t)
      else if startsWith t ''0o'' \<or> startsWith t ''0O'' then parse_digits 8 (drop 2 t)
      else if startsWith t ''0b'' \<or> startsWith t ''0B'' then parse_digits 2 (drop 2 t)
      else if startsWith t ''-'' then map_option uminus (parse_digits 10 (drop 1 t))
      else if startsWith t ''+'' then parse_digits 10 (drop 1 t)
      else parse_digits 10 t)"

subsection \<open>Output templates\<close>

definition PLACEHOLDERS_test :: string where
  "PLACEHOLDERS_test = ''{test}''"

definition PLACEHOLDERS_seq :: string where
  "PLACEHOLDERS_seq = ''{seq}''"

text \<open>
  \<^verbatim>\<open>expandOutputTemplate(template, index, { autoAppend })\<close>. \<^verbatim>\<open>parts[0] += index\<close> on an
  empty array would store \<^verbatim>\<open>"undefined" + index\<close>; \<open>split\<close> never returns one.
\<close>

definition expandOutputTemplate :: "string \<Rightarrow> nat \<Rightarrow> bool \<Rightarrow> string" where
  "expandOutputTemplate template index autoAppend =
     (if includes_str template PLACEHOLDERS_seq
      then replaceAll template PLACEHOLDERS_seq (number_toString index)
      else if autoAppend
      then (case split template (CHR ''.'') of
              [] \<Rightarrow> join [''undefined'' @ number_toString index] ''.''
            | p # ps \<Rightarrow> join ((p @ number_toString index) # ps) ''.'')
      else template)"

definition expandNamedOutputTemplate :: "string \<Rightarrow> string \<Rightarrow> nat \<Rightarrow> bool \<Rightarrow> string" where
  "expandNamedOutputTemplate template name index autoAppend =
     expandOutputTemplate (replaceAll template PLACEHOLDERS_test name) index autoAppend"

subsection \<open>\<^verbatim>\<open>path.basename(path, suffix)\<close> (Node.js, POSIX paths)\<close>

text \<open>
  \<^verbatim>\<open>s.slice(from, to)\<close>; a negative index counts from the end of the string.
\<close>

definition slice :: "string \<Rightarrow> int \<Rightarrow> int \<Rightarrow> string" where
  "slice s from to =
     (let n = int (length s);
          a = (if from < 0 then max (n + from) 0 else min from n);
          b = (if to < 0 then max (n + to) 0 else min to n)
      in take (nat (b - a)) (drop (nat a) s))"

text \<open>
  The variables of the scan in Node's \<^verbatim>\<open>basename\<close>. The scan runs from the last character
  to the first; \<open>basename_scan path suffix (Suc i) st\<close> visits index \<open>i\<close>, and a
  \<^verbatim>\<open>break\<close> ends the recursion.
\<close>

record basename_vars =
  bn_start :: int
  bn_end :: int
  matchedSlash :: bool
  extIdx :: int
  firstNonSlashEnd :: int

fun basename_scan :: "string \<Rightarrow> string \<Rightarrow> nat \<Rightarrow> basename_vars \<Rightarrow> basename_vars" where
  "basename_scan path suffix 0 st = st"
| "basename_scan path suffix (Suc i) st =
     (if path ! i = CHR ''/''
      then (if \<not> matchedSlash st then st\<lparr>bn_start := int i + 1\<rparr>
            else basename_scan path suffix i st)
      else
        (let st1 = (if firstNonSlashEnd st = - 1
                    then st\<lparr>matchedSlash := False, firstNonSlashEnd := int i + 1\<rparr>
                    else st);
             st2 = (if extIdx st1 \<ge> 0
                    then (if path ! i = suffix ! nat (extIdx st1)
                          then (if extIdx st1 - 1 = - 1
                                then st1\<lparr>extIdx := extIdx st1 - 1, bn_end := int i\<rparr>
                                else st1\<lparr>extIdx := extIdx st1 - 1\<rparr>)
                          else st1\<lparr>extIdx := - 1, bn_end := firstNonSlashEnd st1\<rparr>)
                    else st1)
         in basename_scan path suffix i st2))"

text \<open>The scan of the branch without a usable suffix.\<close>

fun basename_plain_scan :: "string \<Rightarrow> nat \<Rightarrow> basename_vars \<Rightarrow> basename_vars" where
  "basename_plain_scan path 0 st = st"
| "basename_plain_scan path (Suc i) st =
     (if path ! i = CHR ''/''
      then (if \<not> matchedSlash st then st\<lparr>bn_start := int i + 1\<rparr>
            else basename_plain_scan path i st)
      else if bn_end st = - 1
      then basename_plain_scan path i (st\<lparr>matchedSlash := False, bn_end := int i + 1\<rparr>)
      else basename_plain_scan path i st)"

definition basename :: "string \<Rightarrow> string \<Rightarrow> string" where
  "basename path suffix =
     (let st0 = \<lparr>bn_start = 0, bn_end = - 1, matchedSlash = True,
                 extIdx = int (length suffix) - 1, firstNonSlashEnd = - 1\<rparr>
      in if suffix \<noteq> [] \<and> length suffix \<le> length path
         then (if suffix = path then []
               else (let st = basename_scan path suffix (length path) st0;
                         e = (if bn_start st = bn_end st then firstNonSlashEnd st
                              else if bn_end st = - 1 then int (length path)
                              else bn_end st)
                     in slice path (bn_start st) e))
         else (let st = basename_plain_scan path (length path) st0
               in if bn_end st = - 1 then [] else slice path (bn_start st) (bn_end st)))"

subsection \<open>The random source\<close>

text \<open>
  Modelled from the spec: \<^verbatim>\<open>newRng\<close> (module \<^verbatim>\<open>./rng\<close>) is not among the sources. The spec
  has a deterministic generator whose whole behaviour follows from its seed, and a fresh
  seed generated when none is given. The generator is its state; \<open>fresh\<close> is the seed the
  environment supplies to \<^verbatim>\<open>newRng()\<close> called without an argument.
\<close>

record Rng =
  rng_state :: int

definition newRng :: "int \<Rightarrow> int option \<Rightarrow> Rng" where
  "newRng fresh initialState =
     \<lparr>rng_state = (case initialState of None \<Rightarrow> fresh | Some s \<Rightarrow> s)\<rparr>"

text \<open>
  \<^verbatim>\<open>mkRng(seedText)\<close>. The condition \<^verbatim>\<open>seed ? newRng(seed) : newRng()\<close> is false for
  \<^verbatim>\<open>undefined\<close> and for \<^verbatim>\<open>0n\<close>.
\<close>

definition mkRng :: "int \<Rightarrow> string option \<Rightarrow> string + Rng" where
  "mkRng fresh seedText =
     (case (case seedText of
              None \<Rightarrow> Inr None
            | Some t \<Rightarrow>
                (case BigInt t of
                   None \<Rightarrow> Inl (''--seed must be a big integer, found: '' @ t)
                 | Some v \<Rightarrow> Inr (Some v))) of
        Inl msg \<Rightarrow> Inl msg
      | Inr seed \<Rightarrow>
          Inr (if seed \<noteq> None \<and> seed \<noteq> Some 0 then newRng fresh seed else newRng fresh None))"

subsection \<open>Command-line arguments and small helpers\<close>

record Args =
  arg_input :: string
  arg_main :: "string option"
  arg_seed :: "string option"
  arg_out :: "string option"
  arg_outItf :: "string option"
  arg_verbosity :: int
  arg_match :: "string option"
  arg_maxSamples :: nat
  arg_maxSteps :: nat
  arg_nTraces :: "nat option"
  arg_init :: string
  arg_step :: string
  arg_invariant :: string
  arg_mbt :: bool

definition deriveVerbosity :: "Args \<Rightarrow> int" where
  "deriveVerbosity a = (if truthy (arg_out a) then 0 else arg_verbosity a)"

text \<open>
  \<^verbatim>\<open>isMatchingTest(match, name)\<close>. \<open>regexp_exec pattern name\<close> stands for
  \<^verbatim>\<open>new RegExp(pattern).exec(name) !== null\<close>; it is \<open>None\<close> when the pattern is not a
  regular expression and \<^verbatim>\<open>new RegExp\<close> raises.
\<close>

definition isMatchingTest ::
    "(string \<Rightarrow> string \<Rightarrow> bool option) \<Rightarrow> string option \<Rightarrow> string \<Rightarrow> bool option" where
  "isMatchingTest regexp_exec match_arg name =
     (case match_arg of
        None \<Rightarrow> Some (endsWith name ''Test'')
      | Some m \<Rightarrow> if m \<noteq> [] then regexp_exec m name else Some (endsWith name ''Test''))"

subsection \<open>The header of an interchange trace\<close>

datatype json =
    JString string
  | JNumber int
  | JBool bool
  | JNull
  | JArray "json list"
  | JObject "string \<rightharpoonup> json"

text \<open>
  \<^verbatim>\<open>addItfHeader(source, status, traceInJson)\<close>. An object is a map from property names to
  values; \<^verbatim>\<open>{ '#meta': m, ...traceInJson }\<close> sets \<^verbatim>\<open>'#meta'\<close> and then copies every property
  of the trace, a later property replacing an earlier one of the same name.
  \<open>date\<close> is the text of \<^verbatim>\<open>new Date()\<close> and \<open>now\<close> the value of \<^verbatim>\<open>Date.now()\<close>.
\<close>

definition itfMeta :: "string \<Rightarrow> int \<Rightarrow> string \<Rightarrow> string \<Rightarrow> json" where
  "itfMeta date now source status =
     JObject [''format'' \<mapsto> JString ''ITF'',
              ''format-description'' \<mapsto>
                 JString ''https://apalache.informal.systems/docs/adr/015adr-trace.html'',
              ''source'' \<mapsto> JString source,
              ''status'' \<mapsto> JString status,
              ''description'' \<mapsto> JString (''Created by Quint on '' @ date),
              ''timestamp'' \<mapsto> JNumber now]"

definition addItfHeader ::
    "string \<Rightarrow> int \<Rightarrow> string \<Rightarrow> string \<Rightarrow> (string \<rightharpoonup> json) \<Rightarrow> (string \<rightharpoonup> json)" where
  "addItfHeader date now source status traceInJson =
     [''#meta'' \<mapsto> itfMeta date now source status] ++ traceInJson"

subsection \<open>Stages of the command-line procedure\<close>

datatype stage =
  loading | parsing | typechecking | testing | running | compiling | outputting_target
  | documentation

text \<open>\<^verbatim>\<open>OutputStage.status\<close>: \<^verbatim>\<open>'ok' | 'violation' | 'failure' | 'error'\<close>.\<close>

datatype status = ok | violation | failure | error

type_synonym Loc = "string \<times> nat \<times> nat"

record QuintError =
  code :: string
  message :: string
  reference :: "int option"

record ErrorMessage =
  explanation :: string
  locs :: "Loc list"

text \<open>
  Expressions of the intermediate representation, as far as the drivers look into them
  (\<^verbatim>\<open>kind\<close>, \<^verbatim>\<open>value\<close>, \<^verbatim>\<open>name\<close>, \<^verbatim>\<open>opcode\<close>, \<^verbatim>\<open>args\<close>); identifiers are left out. A runtime
  value is represented by the expression \<^verbatim>\<open>toQuintEx\<close> turns it into.
\<close>

datatype QuintEx =
    QuintBool bool
  | QuintInt int
  | QuintStr string
  | QuintName string
  | QuintApp string "QuintEx list"

datatype ExecutionFrame =
  ExecutionFrame (frame_result: "QuintError + QuintEx") (frame_args: "QuintEx list")
    (subframes: "ExecutionFrame list")

record Trace =
  trace_seed :: int
  frame :: ExecutionFrame

record QuintModule =
  mod_name :: string

record Definition =
  def_kind :: string
  def_name :: string

text \<open>
  The fields of a stage that the two drivers and \<^verbatim>\<open>outputResult\<close> read or write. The other
  fields (types, effects, modes, path, source text, identifier generator, warnings,
  documentation) pass through unchanged and are left out. \<open>definitionsByModule\<close> and
  \<open>resolverErrors\<close> are \<^verbatim>\<open>resolver.collector.definitionsByModule\<close> and \<^verbatim>\<open>resolver.errors\<close>.
\<close>

record Stage =
  stage :: stage
  args :: Args
  modules :: "QuintModule list"
  defaultModuleName :: "string option"
  sourceMap :: "int \<rightharpoonup> Loc"
  table :: "int \<rightharpoonup> Definition"
  definitionsByModule :: "string \<rightharpoonup> (string \<times> Definition list) list"
  resolverErrors :: "QuintError list"
  status :: "status option"
  trace :: "QuintEx list option"
  seed :: "int option"
  passed :: "string list option"
  failed :: "string list option"
  ignored :: "string list option"
  errors :: "ErrorMessage list option"

record ErrResult =
  msg :: string
  err_stage :: Stage

type_synonym CLIProcedure = "ErrResult + Stage"

definition cliErr :: "string \<Rightarrow> Stage \<Rightarrow> CLIProcedure" where
  "cliErr m st = Inl \<lparr>msg = m, err_stage = st\<rparr>"

text \<open>The part of a stage that is written to \<^verbatim>\<open>--out\<close> (\<^verbatim>\<open>pickOutputStage\<close>).\<close>

record OutputData =
  od_stage :: stage
  od_modules :: "QuintModule list"
  od_errors :: "ErrorMessage list option"
  od_passed :: "string list option"
  od_failed :: "string list option"
  od_ignored :: "string list option"
  od_status :: "status option"
  od_trace :: "QuintEx list option"
  od_seed :: "int option"

definition pickOutputStage :: "Stage \<Rightarrow> OutputData" where
  "pickOutputStage st =
     \<lparr>od_stage = stage st, od_modules = modules st, od_errors = errors st,
      od_passed = passed st, od_failed = failed st, od_ignored = ignored st,
      od_status = status st, od_trace = trace st, od_seed = seed st\<rparr>"

text \<open>
  \<^verbatim>\<open>parse\<close>, first phase: the default module name is the name of the only module of the
  source text, if there is exactly one.
\<close>

definition defaultModuleName_of :: "QuintModule list \<Rightarrow> string option" where
  "defaultModuleName_of ms = (if length ms = 1 then Some (mod_name (ms ! 0)) else None)"

definition guessMainModule :: "Stage \<Rightarrow> string" where
  "guessMainModule st =
     (case arg_main (args st) of
        Some m \<Rightarrow>
          if m \<noteq> [] then m
          else (case defaultModuleName st of
                  Some n \<Rightarrow> n
                | None \<Rightarrow> basename (arg_input (args st)) ''.qnt'')
      | None \<Rightarrow>
          (case defaultModuleName st of
             Some n \<Rightarrow> n
           | None \<Rightarrow> basename (arg_input (args st)) ''.qnt''))"

subsection \<open>Effects, exceptions and the code that is not among the sources\<close>

datatype exn = AssertionError string | TypeError string | SyntaxError string | IOError string

datatype written = OutputJson OutputData | ItfJson "string \<rightharpoonup> json"

text \<open>
  What a driver does besides returning: console output, files written, and the calls
  into the evaluator. Colours (\<^verbatim>\<open>chalk\<close>) are left out of the text.
\<close>

datatype event =
    ConsoleLog string
  | ConsoleError string
  | PrintTrace "QuintEx list option" "ExecutionFrame list"
  | PrintExecutionFrame ExecutionFrame
  | WriteFile string written
  | NewEvaluator Rng
  | Simulate
  | Test string

record SimInput =
  sim_table :: "int \<rightharpoonup> Definition"
  sim_rng :: Rng
  sim_verbosity :: int
  sim_storeMetadata :: bool
  sim_numberOfTraces :: "nat option"
  sim_init :: QuintEx
  sim_step :: QuintEx
  sim_invariant :: QuintEx
  sim_maxSamples :: nat
  sim_maxSteps :: nat
  sim_ntraces :: nat

text \<open>
  What the driver reads after \<^verbatim>\<open>evaluator.simulate\<close>: the result, which the driver reads as
  a boolean expression (\<^verbatim>\<open>evalResult.value as QuintBool\<close>), the recorder's best traces and
  the variable names.
\<close>

record SimOutput =
  evalResult :: "QuintError + bool"
  bestTraces :: "Trace list"
  varNames :: "string list"

datatype TestStatus = st_passed | st_failed | st_ignored

record TestResult =
  test_name :: string
  test_status :: TestStatus
  test_errors :: "QuintError list"
  test_seed :: int
  test_frames :: "ExecutionFrame list"
  nsamples :: nat

record TestInput =
  ti_table :: "int \<rightharpoonup> Definition"
  ti_rng :: Rng
  ti_verbosity :: int
  ti_def :: Definition
  ti_maxSamples :: nat

text \<open>
  What \<^verbatim>\<open>evaluator.test\<close> gives: the test's result, the calls it made to the trace callback
  (name, status, variables, states) and the state it left the shared generator in.
\<close>

record TestOutput =
  test_result :: TestResult
  test_traces :: "(string \<times> string \<times> string list \<times> QuintEx list) list"
  rng_after :: Rng

text \<open>
  The modules the drivers call that are not among the sources are parameters:
  the predicates of \<^verbatim>\<open>./verbosity\<close>, \<^verbatim>\<open>quintErrorToString\<close>, \<^verbatim>\<open>formatError\<close>, regular
  expressions, \<^verbatim>\<open>toItf\<close>, the expression parser and the name resolver, and the evaluator.
  \<open>parseExpression\<close> is \<open>None\<close> when the parse result is not an expression;
  \<open>walkExpression\<close> gives the errors the resolver adds when it walks an expression in the
  main module.
\<close>

record Platform =
  hasResults :: "int \<Rightarrow> bool"
  hasTestDetails :: "int \<Rightarrow> bool"
  hasHints :: "int \<Rightarrow> bool"
  hasStateOutput :: "int \<Rightarrow> bool"
  hasActionTracking :: "int \<Rightarrow> bool"
  quintErrorToString :: "QuintError \<Rightarrow> string"
  formatError :: "ErrorMessage \<Rightarrow> string"
  regexp_exec :: "string \<Rightarrow> string \<Rightarrow> bool option"
  toItf :: "string list \<Rightarrow> QuintEx list \<Rightarrow> string + (string \<rightharpoonup> json)"
  parseExpression :: "string \<Rightarrow> QuintEx option"
  walkExpression :: "string \<Rightarrow> QuintEx \<Rightarrow> QuintError list"
  simulate :: "SimInput \<Rightarrow> SimOutput"
  test :: "TestInput \<Rightarrow> TestOutput"

text \<open>
  What the environment supplies: the seed \<^verbatim>\<open>newRng()\<close> draws, the clock readings
  (\<^verbatim>\<open>Date.now()\<close> at the start and at the end of a run, and the date and time when the
  header of the \<open>i\<close>-th trace is made), and whether a file can be written.
\<close>

record Env =
  fresh_seed :: int
  now_start :: int
  now_end :: int
  now_write :: "nat \<Rightarrow> int"
  date_write :: "nat \<Rightarrow> string"
  can_write :: "string \<Rightarrow> bool"

definition mkErrorMessage :: "Platform \<Rightarrow> (int \<rightharpoonup> Loc) \<Rightarrow> QuintError \<Rightarrow> ErrorMessage" where
  "mkErrorMessage P sm e =
     \<lparr>explanation = quintErrorToString P e,
      locs = (case reference e of
                None \<Rightarrow> []
              | Some r \<Rightarrow> (case sm r of None \<Rightarrow> [] | Some l \<Rightarrow> [l]))\<rparr>"

definition writeToJson :: "Env \<Rightarrow> string \<Rightarrow> written \<Rightarrow> event list \<times> (exn + unit)" where
  "writeToJson env filename doc =
     (if can_write env filename then ([WriteFile filename doc], Inr ())
      else ([], Inl (IOError filename)))"

subsection \<open>\<^verbatim>\<open>outputResult\<close>\<close>

definition seed_line :: "int \<Rightarrow> string" where
  "seed_line s = ''Use --seed=0x'' @ bigint_toString16 s @ '' to reproduce.''"

text \<open>\<^verbatim>\<open>uniqWith(errors, isEqual)\<close>: the first of equal elements is kept.\<close>

fun uniqWith_isEqual :: "'a list \<Rightarrow> 'a list" where
  "uniqWith_isEqual [] = []"
| "uniqWith_isEqual (x # xs) = x # uniqWith_isEqual (filter (\<lambda>y. y \<noteq> x) xs)"

text \<open>
  The line with the seed is printed when \<^verbatim>\<open>--out-itf\<close> is not set, the stage has a seed
  that is not \<^verbatim>\<open>0n\<close>, and the verbosity has results.
\<close>

definition print_seed :: "Platform \<Rightarrow> Stage \<Rightarrow> event list" where
  "print_seed P st =
     (case seed st of
        None \<Rightarrow> []
      | Some s \<Rightarrow>
          if \<not> truthy (arg_outItf (args st)) \<and> s \<noteq> 0
             \<and> hasResults P (deriveVerbosity (args st))
          then [ConsoleLog (seed_line s)] else [])"

text \<open>
  \<^verbatim>\<open>outputResult(result)\<close>. The value is what was output and how the process ended: the
  argument of \<^verbatim>\<open>process.exit\<close>, or the exception that left the function.
\<close>

definition outputResult :: "Platform \<Rightarrow> Env \<Rightarrow> CLIProcedure \<Rightarrow> event list \<times> (exn + nat)" where
  "outputResult P env result =
     (case result of
        Inr st \<Rightarrow>
          (case arg_out (args st) of
             Some f \<Rightarrow>
               if f \<noteq> []
               then (case writeToJson env f (OutputJson (pickOutputStage st)) of
                       (evs, Inl x) \<Rightarrow> (evs, Inl x)
                     | (evs, Inr u) \<Rightarrow> (evs, Inr 0))
               else (print_seed P st, Inr 0)
           | None \<Rightarrow> (print_seed P st, Inr 0))
      | Inl e \<Rightarrow>
          (let st = err_stage e;
               report =
                 map (\<lambda>m. ConsoleError (formatError P m))
                     (uniqWith_isEqual (case errors st of None \<Rightarrow> [] | Some es \<Rightarrow> es))
                 @ print_seed P st
                 @ [ConsoleError (''error: '' @ msg e)]
           in case arg_out (args st) of
                Some f \<Rightarrow>
                  if f \<noteq> []
                  then (case writeToJson env f (OutputJson (pickOutputStage st)) of
                          (evs, Inl x) \<Rightarrow> (evs, Inl x)
                        | (evs, Inr u) \<Rightarrow> (evs, Inr 1))
                  else (report, Inr 1)
              | None \<Rightarrow> (report, Inr 1)))"

subsection \<open>\<^verbatim>\<open>runSimulator\<close>\<close>

definition moreThanOneTrace :: "Args \<Rightarrow> bool" where
  "moreThanOneTrace a = (case arg_nTraces a of None \<Rightarrow> False | Some n \<Rightarrow> n > 1)"

text \<open>The \<^verbatim>\<open>onTrace\<close> callback of the simulator's options.\<close>

definition onTrace_simulator ::
    "Platform \<Rightarrow> Env \<Rightarrow> Stage \<Rightarrow> nat \<Rightarrow> string \<Rightarrow> string list \<Rightarrow> QuintEx list
      \<Rightarrow> event list \<times> (exn + unit)" where
  "onTrace_simulator P env prev index st_text vars states =
     (case arg_outItf (args prev) of
        None \<Rightarrow> ([], Inr ())
      | Some itfFile \<Rightarrow>
          if itfFile = [] then ([], Inr ())
          else (let filename = expandOutputTemplate itfFile index (moreThanOneTrace (args prev))
                in case toItf P vars states of
                     Inr t \<Rightarrow>
                       writeToJson env filename
                         (ItfJson (addItfHeader (date_write env index) (now_write env index)
                                     (arg_input (args prev)) st_text t))
                   | Inl e \<Rightarrow>
                       ([ConsoleError (''ITF conversion failed on '' @ number_toString index
                                       @ '': '' @ e)], Inr ())))"

text \<open>
  \<^verbatim>\<open>toExpr\<close> applied to the three arguments in turn. The resolver keeps the errors of
  earlier walks, so its error list is passed along.
\<close>

fun toExpr_all ::
    "Platform \<Rightarrow> string \<Rightarrow> QuintError list \<Rightarrow> string list \<Rightarrow> (QuintError + QuintEx) list" where
  "toExpr_all P mainName errs [] = []"
| "toExpr_all P mainName errs (inp # rest) =
     (case parseExpression P inp of
        None \<Rightarrow>
          Inl \<lparr>code = ''QNT501'',
               message = ''Expected '' @ inp @ '' to be a valid expression'',
               reference = None\<rparr>
          # toExpr_all P mainName errs rest
      | Some e \<Rightarrow>
          (let errs' = errs @ walkExpression P mainName e
           in (case errs' of [] \<Rightarrow> Inr e | e1 # es \<Rightarrow> Inl e1)
              # toExpr_all P mainName errs' rest))"

text \<open>\<^verbatim>\<open>mergeInMany\<close>: all the left values if there is one, all the right values otherwise.\<close>

definition mergeInMany :: "('l + 'r) list \<Rightarrow> 'l list + 'r list" where
  "mergeInMany xs =
     (let ls = concat (map (\<lambda>x. case x of Inl l \<Rightarrow> [l] | Inr r \<Rightarrow> []) xs)
      in if ls = [] then Inr (concat (map (\<lambda>x. case x of Inl l \<Rightarrow> [] | Inr r \<Rightarrow> [r]) xs))
         else Inl ls)"

text \<open>
  The loop over the recorder's best traces. A trace whose frame holds an error is
  skipped (the \<^verbatim>\<open>return\<close> leaves the callback only); a result that is not a boolean fails
  the assertion.
\<close>

fun forEach_bestTraces ::
    "Platform \<Rightarrow> Env \<Rightarrow> Stage \<Rightarrow> string list \<Rightarrow> nat \<Rightarrow> Trace list \<Rightarrow> event list \<times> (exn + unit)" where
  "forEach_bestTraces P env prev vars index [] = ([], Inr ())"
| "forEach_bestTraces P env prev vars index (t # ts) =
     (case frame_result (frame t) of
        Inl e \<Rightarrow> forEach_bestTraces P env prev vars (Suc index) ts
      | Inr (QuintBool simulationSucceeded) \<Rightarrow>
          (case onTrace_simulator P env prev index
                  (if simulationSucceeded then ''ok'' else ''violation'') vars
                  (frame_args (frame t)) of
             (evs, Inl x) \<Rightarrow> (evs, Inl x)
           | (evs, Inr u) \<Rightarrow>
               (case forEach_bestTraces P env prev vars (Suc index) ts of
                  (evs', r) \<Rightarrow> (evs @ evs', r)))
      | Inr other \<Rightarrow>
          ([], Inl (AssertionError ''invalid simulation produced non-boolean value '')))"

definition maybePrintCounterExample ::
    "Platform \<Rightarrow> int \<Rightarrow> QuintEx list option \<Rightarrow> ExecutionFrame list option \<Rightarrow> event list" where
  "maybePrintCounterExample P verbosityLevel states frames =
     (if hasStateOutput P verbosityLevel
      then [ConsoleLog (''An example execution:'' @ [CHR 0x0A]),
            PrintTrace states (case frames of None \<Rightarrow> [] | Some fs \<Rightarrow> fs)]
      else [])"

text \<open>
  The outcome: \<^verbatim>\<open>{ status: 'ok' }\<close>, \<^verbatim>\<open>{ status: 'violation' }\<close> or
  \<^verbatim>\<open>{ status: 'error', errors }\<close>, made by the conditional on \<^verbatim>\<open>evalResult\<close>.
\<close>

datatype Outcome = Outcome_ok | Outcome_violation | Outcome_error "QuintError list"

definition outcome_of :: "QuintError + bool \<Rightarrow> Outcome" where
  "outcome_of r =
     (case r of
        Inr b \<Rightarrow> if b then Outcome_ok else Outcome_violation
      | Inl e \<Rightarrow> Outcome_error [e])"

fun outcome_status :: "Outcome \<Rightarrow> status" where
  "outcome_status Outcome_ok = ok"
| "outcome_status Outcome_violation = violation"
| "outcome_status (Outcome_error es) = error"

text \<open>The \<^verbatim>\<open>switch\<close> on the outcome's status, with what is printed before returning.\<close>

definition simulator_result ::
    "Platform \<Rightarrow> Env \<Rightarrow> Stage \<Rightarrow> int \<Rightarrow> SimOutput \<Rightarrow> event list \<times> CLIProcedure" where
  "simulator_result P env simulator verbosityLevel out =
     (let states = (case bestTraces out of [] \<Rightarrow> None | t # ts \<Rightarrow> Some (frame_args (frame t)));
          frames = (case bestTraces out of [] \<Rightarrow> None | t # ts \<Rightarrow> Some (subframes (frame t)));
          outcome = outcome_of (evalResult out);
          elapsedMs = now_end env - now_start env
      in case outcome of
           Outcome_error es \<Rightarrow>
             ([], cliErr ''Runtime error''
                    (simulator\<lparr>status := Some (outcome_status outcome), trace := states,
                               errors := Some (map (mkErrorMessage P (sourceMap simulator)) es)\<rparr>))
         | Outcome_ok \<Rightarrow>
             (maybePrintCounterExample P verbosityLevel states frames
              @ (if hasResults P verbosityLevel
                 then ConsoleLog (''[ok] No violation found ('' @ int_toString elapsedMs @ ''ms).'')
                      # (if hasHints P verbosityLevel
                         then [ConsoleLog ''You may increase --max-samples and --max-steps.'',
                               ConsoleLog ''Use --verbosity to produce more (or less) output.'']
                         else [])
                 else []),
              Inr (simulator\<lparr>status := Some (outcome_status outcome), trace := states\<rparr>))
         | Outcome_violation \<Rightarrow>
             (maybePrintCounterExample P verbosityLevel states frames
              @ (if hasResults P verbosityLevel
                 then ConsoleLog (''[violation] Found an issue ('' @ int_toString elapsedMs @ ''ms).'')
                      # (if hasHints P verbosityLevel
                         then [ConsoleLog ''Use --verbosity=3 to show executions.'']
                         else [])
                 else []),
              cliErr ''Invariant violated''
                (simulator\<lparr>status := Some (outcome_status outcome), trace := states,
                           errors := Some []\<rparr>)))"

text \<open>
  \<^verbatim>\<open>runSimulator(prev)\<close> up to the call of the evaluator: the value returned early, or
  the generator and the arguments the evaluator, its recorder and \<^verbatim>\<open>simulate\<close> are given.
\<close>

definition simulator_verbosity :: "Stage \<Rightarrow> int" where
  "simulator_verbosity prev =
     (if truthy (arg_outItf (args prev)) then 0 else deriveVerbosity (args prev))"

definition simulator_setup :: "Platform \<Rightarrow> Env \<Rightarrow> Stage \<Rightarrow> CLIProcedure + SimInput" where
  "simulator_setup P env prev =
     (let simulator = prev\<lparr>stage := running\<rparr>;
          verbosityLevel = simulator_verbosity prev;
          mainName = guessMainModule prev
      in case find (\<lambda>m. mod_name m = mainName) (modules prev) of
           None \<Rightarrow>
             Inl (cliErr ''Argument error''
                (prev\<lparr>errors := Some [mkErrorMessage P (sourceMap prev)
                   \<lparr>code = ''QNT405'',
                    message = ''Main module '' @ mainName @ '' not found'',
                    reference = None\<rparr>]\<rparr>))
         | Some main \<Rightarrow>
             (case mkRng (fresh_seed env) (arg_seed (args prev)) of
                Inl m \<Rightarrow> Inl (cliErr m (simulator\<lparr>errors := Some []\<rparr>))
              | Inr rng \<Rightarrow>
                  (case mergeInMany
                          (toExpr_all P mainName (resolverErrors prev)
                             [arg_init (args prev), arg_step (args prev),
                              arg_invariant (args prev)]) of
                     Inl es \<Rightarrow>
                       Inl (cliErr ''Argument error''
                          (simulator\<lparr>errors := Some (map (mkErrorMessage P Map.empty) es)\<rparr>))
                   | Inr exprs \<Rightarrow>
                       Inr \<lparr>sim_table = table prev, sim_rng = rng,
                            sim_verbosity = verbosityLevel,
                            sim_storeMetadata = arg_mbt (args prev),
                            sim_numberOfTraces = arg_nTraces (args prev),
                            sim_init = exprs ! 0, sim_step = exprs ! 1,
                            sim_invariant = exprs ! 2,
                            sim_maxSamples = arg_maxSamples (args prev),
                            sim_maxSteps = arg_maxSteps (args prev),
                            sim_ntraces =
                              (case arg_nTraces (args prev) of None \<Rightarrow> 1 | Some n \<Rightarrow> n)\<rparr>)))"

text \<open>
  \<^verbatim>\<open>runSimulator(prev)\<close>: the events in order, and the returned value or the exception.
  The seed of the first best trace is stored in the stage before the traces are written.
\<close>

definition runSimulator ::
    "Platform \<Rightarrow> Env \<Rightarrow> Stage \<Rightarrow> event list \<times> (exn + CLIProcedure)" where
  "runSimulator P env prev =
     (case simulator_setup P env prev of
        Inl r \<Rightarrow> ([], Inr r)
      | Inr inp \<Rightarrow>
          (let out = simulate P inp;
               simulator =
                 prev\<lparr>stage := running,
                      seed := (case bestTraces out of
                                 [] \<Rightarrow> None | t # ts \<Rightarrow> Some (trace_seed t))\<rparr>
           in case forEach_bestTraces P env prev (varNames out) 0 (bestTraces out) of
                (evs, Inl x) \<Rightarrow> (NewEvaluator (sim_rng inp) # Simulate # evs, Inl x)
              | (evs, Inr u) \<Rightarrow>
                  (case simulator_result P env simulator (simulator_verbosity prev) out of
                     (evs', r) \<Rightarrow>
                       (NewEvaluator (sim_rng inp) # Simulate # evs @ evs', Inr r))))"

subsection \<open>\<^verbatim>\<open>runTests\<close>\<close>

definition test_seed_line :: "int \<Rightarrow> string \<Rightarrow> string" where
  "test_seed_line s name =
     ''    Use --seed=0x'' @ bigint_toString16 s @ '' --match='' @ name @ '' to repeat.''"

text \<open>The \<^verbatim>\<open>onTrace(index)\<close> callback of the test options.\<close>

definition onTrace_tests ::
    "Platform \<Rightarrow> Env \<Rightarrow> Stage \<Rightarrow> nat \<Rightarrow> string \<Rightarrow> string \<Rightarrow> string list \<Rightarrow> QuintEx list
      \<Rightarrow> event list \<times> (exn + unit)" where
  "onTrace_tests P env prev index name st_text vars states =
     (case arg_outItf (args prev) of
        None \<Rightarrow> ([], Inr ())
      | Some outputTemplate \<Rightarrow>
          if outputTemplate = [] then ([], Inr ())
          else (let filename = expandNamedOutputTemplate outputTemplate name index
                                 (moreThanOneTrace (args prev))
                in case toItf P vars states of
                     Inr t \<Rightarrow>
                       writeToJson env filename
                         (ItfJson (addItfHeader (date_write env index) (now_write env index)
                                     (arg_input (args prev)) st_text t))
                   | Inl e \<Rightarrow>
                       ([ConsoleError (''ITF conversion failed on '' @ name @ '': '' @ e)],
                        Inr ())))"

fun onTrace_calls ::
    "Platform \<Rightarrow> Env \<Rightarrow> Stage \<Rightarrow> nat \<Rightarrow> (string \<times> string \<times> string list \<times> QuintEx list) list
      \<Rightarrow> event list \<times> (exn + unit)" where
  "onTrace_calls P env prev index [] = ([], Inr ())"
| "onTrace_calls P env prev index ((name, st_text, vars, states) # calls) =
     (case onTrace_tests P env prev index name st_text vars states of
        (evs, Inl x) \<Rightarrow> (evs, Inl x)
      | (evs, Inr u) \<Rightarrow>
          (case onTrace_calls P env prev index calls of (evs', r) \<Rightarrow> (evs @ evs', r)))"

text \<open>
  \<^verbatim>\<open>.filter(d => d.kind === 'def' && options.testMatch(d.name))\<close>; the filter ends
  with an exception when the pattern of \<^verbatim>\<open>--match\<close> is not a regular expression.
\<close>

fun filter_testDefs :: "Platform \<Rightarrow> string option \<Rightarrow> Definition list \<Rightarrow> exn + Definition list" where
  "filter_testDefs P match_arg [] = Inr []"
| "filter_testDefs P match_arg (d # ds) =
     (if def_kind d = ''def''
      then (case isMatchingTest (regexp_exec P) match_arg (def_name d) of
              None \<Rightarrow> Inl (SyntaxError ''Invalid regular expression'')
            | Some b \<Rightarrow>
                (case filter_testDefs P match_arg ds of
                   Inl x \<Rightarrow> Inl x
                 | Inr r \<Rightarrow> Inr (if b then d # r else r)))
      else filter_testDefs P match_arg ds)"

text \<open>
  \<^verbatim>\<open>testDefs.map((def, index) => evaluator.test(def, maxSamples, options.onTrace(index)))\<close>;
  all the tests draw from the one generator.
\<close>

fun map_tests ::
    "Platform \<Rightarrow> Env \<Rightarrow> Stage \<Rightarrow> int \<Rightarrow> Rng \<Rightarrow> nat \<Rightarrow> Definition list
      \<Rightarrow> event list \<times> (exn + TestResult list)" where
  "map_tests P env prev verbosityLevel rng index [] = ([], Inr [])"
| "map_tests P env prev verbosityLevel rng index (d # ds) =
     (let out = test P \<lparr>ti_table = table prev, ti_rng = rng, ti_verbosity = verbosityLevel,
                         ti_def = d, ti_maxSamples = arg_maxSamples (args prev)\<rparr>
      in case onTrace_calls P env prev index (test_traces out) of
           (evs, Inl x) \<Rightarrow> (Test (def_name d) # evs, Inl x)
         | (evs, Inr u) \<Rightarrow>
             (case map_tests P env prev verbosityLevel (rng_after out) (Suc index) ds of
                (evs', Inl x) \<Rightarrow> (Test (def_name d) # evs @ evs', Inl x)
              | (evs', Inr rs) \<Rightarrow> (Test (def_name d) # evs @ evs', Inr (test_result out # rs))))"

text \<open>The status line of every test; \<open>nFailures\<close> numbers the failed ones.\<close>

fun print_statuses :: "nat \<Rightarrow> TestResult list \<Rightarrow> event list" where
  "print_statuses nFailures [] = []"
| "print_statuses nFailures (res # rest) =
     (if test_status res = st_passed
      then [ConsoleLog (''    ok '' @ test_name res @ '' passed ''
                        @ number_toString (nsamples res) @ '' test(s)'')]
      else [])
     @ (if test_status res = st_failed
        then ConsoleLog (''    '' @ number_toString nFailures @ '') '' @ test_name res
                         @ '' failed after '' @ number_toString (nsamples res) @ '' test(s)'')
             # print_statuses (nFailures + 1) rest
        else print_statuses nFailures rest)"

fun print_frames :: "nat \<Rightarrow> ExecutionFrame list \<Rightarrow> event list" where
  "print_frames index [] = []"
| "print_frames index (f # fs) =
     [ConsoleLog (''[Frame '' @ number_toString index @ '']''), PrintExecutionFrame f,
      ConsoleLog []]
     @ print_frames (Suc index) fs"

text \<open>
  The details of the failures: one entry for every error of every failed test, each
  ending with the line that gives the seed of the test.
\<close>

fun print_namedErrors ::
    "Platform \<Rightarrow> int \<Rightarrow> nat \<Rightarrow> (TestResult \<times> ErrorMessage) list \<Rightarrow> event list" where
  "print_namedErrors P verbosityLevel index [] = []"
| "print_namedErrors P verbosityLevel index ((testResult, err) # rest) =
     [ConsoleLog (''  '' @ number_toString (index + 1) @ '') '' @ test_name testResult @ '':'')]
     @ map (\<lambda>l. ConsoleLog (''      '' @ l)) (take 2 (split (formatError P err) (CHR 0x0A)))
     @ (if hasActionTracking P verbosityLevel
        then [ConsoleLog []] @ print_frames 0 (test_frames testResult)
             @ (if test_frames testResult = [] then [ConsoleLog ''    [No execution]''] else [])
        else [])
     @ [ConsoleLog (test_seed_line (test_seed testResult) (test_name testResult))]
     @ print_namedErrors P verbosityLevel (Suc index) rest"

definition namedErrors_of ::
    "Platform \<Rightarrow> Stage \<Rightarrow> TestResult list \<Rightarrow> (TestResult \<times> ErrorMessage) list" where
  "namedErrors_of P st failedResults =
     concat (map (\<lambda>f. map (\<lambda>e. (f, mkErrorMessage P (sourceMap st) e)) (test_errors f))
                 failedResults)"

text \<open>What \<^verbatim>\<open>runTests\<close> does once the results are there.\<close>

definition report_tests ::
    "Platform \<Rightarrow> Env \<Rightarrow> Stage \<Rightarrow> int \<Rightarrow> TestResult list \<Rightarrow> event list \<times> CLIProcedure" where
  "report_tests P env testing_stage verbosityLevel results =
     (let elapsedMs = now_end env - now_start env;
          passedR = filter (\<lambda>r. test_status r = st_passed) results;
          failedR = filter (\<lambda>r. test_status r = st_failed) results;
          ignoredR = filter (\<lambda>r. test_status r = st_ignored) results;
          namedErrors = namedErrors_of P testing_stage failedR;
          st = testing_stage\<lparr>passed := Some (map test_name passedR),
                             failed := Some (map test_name failedR),
                             ignored := Some (map test_name ignoredR),
                             errors := Some []\<rparr>;
          summary =
            (if hasResults P verbosityLevel then print_statuses 1 results else [])
            @ (if hasResults P verbosityLevel
               then [ConsoleLog []]
                    @ (if length passedR > 0
                       then [ConsoleLog (''  '' @ number_toString (length passedR) @ '' passing''
                                         @ '' ('' @ int_toString elapsedMs @ ''ms)'')]
                       else [])
                    @ (if length failedR > 0
                       then [ConsoleLog (''  '' @ number_toString (length failedR) @ '' failed'')]
                       else [])
                    @ (if length ignoredR > 0
                       then [ConsoleLog (''  '' @ number_toString (length ignoredR) @ '' ignored'')]
                       else [])
               else [])
      in if length failedR = 0 then (summary, Inr st)
         else (summary
               @ (if hasTestDetails P verbosityLevel
                  then [ConsoleLog []] @ print_namedErrors P verbosityLevel 0 namedErrors
                       @ [ConsoleLog []]
                  else [])
               @ (if hasHints P verbosityLevel \<and> \<not> hasActionTracking P verbosityLevel
                  then [ConsoleLog (CHR 0x0A # ''  Use --verbosity=3 to show executions.''),
                        ConsoleLog (''  Further debug with: quint test --verbosity=3 ''
                                    @ arg_input (args testing_stage))]
                  else []),
               cliErr ''Tests failed'' st))"

definition runTests ::
    "Platform \<Rightarrow> Env \<Rightarrow> Stage \<Rightarrow> event list \<times> (exn + CLIProcedure)" where
  "runTests P env prev =
     (let testing_stage = prev\<lparr>stage := testing\<rparr>;
          verbosityLevel = deriveVerbosity (args prev);
          mainName = guessMainModule prev
      in case find (\<lambda>m. mod_name m = mainName) (modules prev) of
           None \<Rightarrow>
             ([], Inr (cliErr ''Argument error''
                (testing_stage\<lparr>errors := Some [mkErrorMessage P (sourceMap prev)
                   \<lparr>code = ''QNT405'',
                    message = ''Main module '' @ mainName @ '' not found'',
                    reference = None\<rparr>]\<rparr>)))
         | Some main \<Rightarrow>
             (case mkRng (fresh_seed env) (arg_seed (args prev)) of
                Inl m \<Rightarrow> ([], Inr (cliErr m (testing_stage\<lparr>errors := Some []\<rparr>)))
              | Inr rng \<Rightarrow>
                  (let header =
                         (if hasResults P verbosityLevel
                          then [ConsoleLog (CHR 0x0A # ''  '' @ mainName)] else [])
                   in case definitionsByModule prev mainName of
                        None \<Rightarrow> (header, Inl (TypeError ''Cannot read properties of undefined''))
                      | Some byName \<Rightarrow>
                          (case filter_testDefs P (arg_match (args prev))
                                  (concat (map snd byName)) of
                             Inl x \<Rightarrow> (header, Inl x)
                           | Inr testDefs \<Rightarrow>
                               (case map_tests P env prev verbosityLevel rng 0 testDefs of
                                  (evs, Inl x) \<Rightarrow> (header @ NewEvaluator rng # evs, Inl x)
                                | (evs, Inr results) \<Rightarrow>
                                    (case report_tests P env testing_stage verbosityLevel
                                            results of
                                       (evs', r) \<Rightarrow>
                                         (header @ NewEvaluator rng # evs @ evs', Inr r)))))))"

subsection \<open>Observations on a run\<close>

definition result_stage :: "CLIProcedure \<Rightarrow> Stage" where
  "result_stage r = (case r of Inl e \<Rightarrow> err_stage e | Inr st \<Rightarrow> st)"

text \<open>
  An event shows the seed \<open>s\<close> when it is a console line with \<^verbatim>\<open>--seed=0x\<close> and the seed in
  hexadecimal, or the stage written to \<^verbatim>\<open>--out\<close> with the seed in it.
\<close>

fun event_shows_seed :: "int \<Rightarrow> event \<Rightarrow> bool" where
  "event_shows_seed s (ConsoleLog l) = includes_str l (''--seed=0x'' @ bigint_toString16 s @ '' '')"
| "event_shows_seed s (WriteFile f (OutputJson d)) = (od_seed d = Some s)"
| "event_shows_seed s e = False"

definition seed_surfaced :: "int \<Rightarrow> event list \<Rightarrow> bool" where
  "seed_surfaced s evs = list_ex (event_shows_seed s) evs"


subsection \<open>Concrete inputs\<close>

text \<open>
  A platform to evaluate the drivers with: verbosity thresholds, a pattern matcher that
  looks for the pattern as plain text, and an evaluator whose verdict and trace depend on
  the generator's state only (a violation when the state is odd).
\<close>

definition demo_simulate :: "SimInput \<Rightarrow> SimOutput" where
  "demo_simulate inp =
     \<lparr>evalResult = Inr (even (rng_state (sim_rng inp))),
      bestTraces =
        [\<lparr>trace_seed = rng_state (sim_rng inp),
          frame = ExecutionFrame (Inr (QuintBool (even (rng_state (sim_rng inp)))))
                    [QuintInt (rng_state (sim_rng inp))] []\<rparr>],
      varNames = [''x'']\<rparr>"

definition demo_test :: "TestInput \<Rightarrow> TestOutput" where
  "demo_test ti =
     \<lparr>test_result =
        \<lparr>test_name = def_name (ti_def ti),
         test_status = (if startsWith (def_name (ti_def ti)) ''bad'' then st_failed else st_passed),
         test_errors =
           (if startsWith (def_name (ti_def ti)) ''bad''
            then [\<lparr>code = ''QNT511'', message = ''Test returned false'', reference = None\<rparr>]
            else []),
         test_seed = rng_state (ti_rng ti),
         test_frames = [],
         nsamples = 1\<rparr>,
      test_traces = [],
      rng_after = \<lparr>rng_state = rng_state (ti_rng ti) + 1\<rparr>\<rparr>"

definition demo_platform :: Platform where
  "demo_platform =
     \<lparr>hasResults = (\<lambda>l. l \<ge> 1),
      hasTestDetails = (\<lambda>l. l \<ge> 2),
      hasHints = (\<lambda>l. l \<ge> 2),
      hasStateOutput = (\<lambda>l. l \<ge> 2),
      hasActionTracking = (\<lambda>l. l \<ge> 3),
      quintErrorToString = (\<lambda>e. code e @ '': '' @ message e),
      formatError = explanation,
      regexp_exec = (\<lambda>pattern name. Some (includes_str name pattern)),
      toItf = (\<lambda>vars states. Inr [''vars'' \<mapsto> JArray (map JString vars)]),
      parseExpression = (\<lambda>text. Some (QuintName text)),
      walkExpression = (\<lambda>mainName e. []),
      simulate = demo_simulate,
      test = demo_test\<rparr>"

definition demo_env :: Env where
  "demo_env =
     \<lparr>fresh_seed = 1, now_start = 1000, now_end = 1042,
      now_write = (\<lambda>i. 1040), date_write = (\<lambda>i. ''Mon Nov 02 2026''),
      can_write = (\<lambda>f. True)\<rparr>"

definition demo_args :: Args where
  "demo_args =
     \<lparr>arg_input = ''specs/counter.qnt'', arg_main = None, arg_seed = Some ''7'',
      arg_out = None, arg_outItf = None, arg_verbosity = 2, arg_match = None,
      arg_maxSamples = 10, arg_maxSteps = 5, arg_nTraces = Some 1,
      arg_init = ''init'', arg_step = ''step'', arg_invariant = ''inv'', arg_mbt = False\<rparr>"

definition demo_stage :: Stage where
  "demo_stage =
     \<lparr>stage = typechecking, args = demo_args,
      modules = [\<lparr>mod_name = ''counter''\<rparr>],
      defaultModuleName = Some ''counter'',
      sourceMap = Map.empty, table = Map.empty,
      definitionsByModule =
        [''counter'' \<mapsto>
           [(''incrTest'', [\<lparr>def_kind = ''def'', def_name = ''incrTest''\<rparr>]),
            (''badTest'', [\<lparr>def_kind = ''def'', def_name = ''badTest''\<rparr>]),
            (''helper'', [\<lparr>def_kind = ''def'', def_name = ''helper''\<rparr>]),
            (''x'', [\<lparr>def_kind = ''var'', def_name = ''x''\<rparr>])]],
      resolverErrors = [],
      status = None, trace = None, seed = None, passed = None, failed = None,
      ignored = None, errors = None\<rparr>"

section \<open>Properties\<close>

subsection \<open>Evaluation of the concrete inputs\<close>

lemma demo_stage_fields [simp]:
  "args demo_stage = demo_args"
  "modules demo_stage = [\<lparr>mod_name = ''counter''\<rparr>]"
  "defaultModuleName demo_stage = Some ''counter''"
  "resolverErrors demo_stage = []"
  "seed demo_stage = None"
  "errors demo_stage = None"
  "status demo_stage = None"
  by (simp_all add: demo_stage_def)

lemma demo_args_fields [simp]:
  "arg_input demo_args = ''specs/counter.qnt''"
  "arg_main demo_args = None"
  "arg_seed demo_args = Some ''7''"
  "arg_out demo_args = None"
  "arg_outItf demo_args = None"
  "arg_verbosity demo_args = 2"
  "arg_match demo_args = None"
  "arg_nTraces demo_args = Some 1"
  "arg_init demo_args = ''init''"
  "arg_step demo_args = ''step''"
  "arg_invariant demo_args = ''inv''"
  by (simp_all add: demo_args_def)

lemma demo_platform_fields [simp]:
  "hasResults demo_platform = (\<lambda>l. l \<ge> 1)"
  "hasTestDetails demo_platform = (\<lambda>l. l \<ge> 2)"
  "hasHints demo_platform = (\<lambda>l. l \<ge> 2)"
  "hasStateOutput demo_platform = (\<lambda>l. l \<ge> 2)"
  "hasActionTracking demo_platform = (\<lambda>l. l \<ge> 3)"
  "parseExpression demo_platform = (\<lambda>text. Some (QuintName text))"
  "walkExpression demo_platform = (\<lambda>mainName e. [])"
  "simulate demo_platform = demo_simulate"
  "test demo_platform = demo_test"
  "formatError demo_platform = explanation"
  "regexp_exec demo_platform = (\<lambda>pattern name. Some (includes_str name pattern))"
  by (simp_all add: demo_platform_def)

lemma demo_env_fields [simp]:
  "fresh_seed demo_env = 1" "now_start demo_env = 1000" "now_end demo_env = 1042"
  "can_write demo_env = (\<lambda>f. True)"
  by (simp_all add: demo_env_def)

lemmas BigInt_eval = BigInt_def trim_def isWhiteSpace_def parse_digits_def digit_value_def

lemma BigInt_7: "BigInt ''7'' = Some 7"
  by (simp add: BigInt_def trim_def isWhiteSpace_def parse_digits_def digit_value_def)

lemma BigInt_malformed: "BigInt ''12abc'' = None"
  by (simp add: BigInt_def trim_def isWhiteSpace_def parse_digits_def digit_value_def)

lemma demo_basename: "basename ''specs/counter.qnt'' ''.qnt'' = ''counter''"
  by code_simp

lemma demo_guessMainModule [simp]: "guessMainModule demo_stage = ''counter''"
  by (simp add: guessMainModule_def)

lemma demo_setup_value:
  "simulator_setup demo_platform demo_env demo_stage =
     Inr \<lparr>sim_table = table demo_stage, sim_rng = \<lparr>rng_state = 7\<rparr>, sim_verbosity = 2,
          sim_storeMetadata = arg_mbt demo_args, sim_numberOfTraces = Some 1,
          sim_init = QuintName ''init'', sim_step = QuintName ''step'',
          sim_invariant = QuintName ''inv'', sim_maxSamples = arg_maxSamples demo_args,
          sim_maxSteps = arg_maxSteps demo_args, sim_ntraces = 1\<rparr>"
  by (simp add: simulator_setup_def Let_def mkRng_def newRng_def BigInt_7 mergeInMany_def
      simulator_verbosity_def deriveVerbosity_def truthy_def)

lemma int_toString_42: "int_toString 42 = ''42''"
  by (simp add: int_toString_def digit_char_def toString_radix.simps)

lemma demo_run_value:
  "runSimulator demo_platform demo_env demo_stage =
     ([NewEvaluator \<lparr>rng_state = 7\<rparr>, Simulate,
       ConsoleLog (''An example execution:'' @ [CHR 0x0A]),
       PrintTrace (Some [QuintInt 7]) [],
       ConsoleLog ''[violation] Found an issue (42ms).'',
       ConsoleLog ''Use --verbosity=3 to show executions.''],
      Inr (cliErr ''Invariant violated''
             (demo_stage\<lparr>stage := running, seed := Some 7, status := Some violation,
                         trace := Some [QuintInt 7], errors := Some []\<rparr>)))"
  by (simp add: runSimulator_def demo_setup_value Let_def demo_simulate_def
      onTrace_simulator_def simulator_result_def outcome_of_def maybePrintCounterExample_def
      simulator_verbosity_def deriveVerbosity_def truthy_def int_toString_42)

lemma seed_line_7: "seed_line 7 = ''Use --seed=0x7 to reproduce.''"
  by (simp add: seed_line_def bigint_toString16_def digit_char_def toString_radix.simps)

lemma demo_output_value:
  "outputResult demo_platform demo_env
     (cliErr ''Invariant violated''
        (demo_stage\<lparr>stage := running, seed := Some 7, status := Some violation,
                    trace := Some [QuintInt 7], errors := Some []\<rparr>)) =
     ([ConsoleLog ''Use --seed=0x7 to reproduce.'', ConsoleError ''error: Invariant violated''],
      Inr 1)"
  by (simp add: outputResult_def cliErr_def Let_def print_seed_def deriveVerbosity_def truthy_def
      seed_line_7)

subsection \<open>The outcome of a simulation and the exit code\<close>

lemma result_stage_simps [simp]:
  "result_stage (Inl e) = err_stage e" "result_stage (Inr st) = st"
  "result_stage (cliErr m st) = st"
  by (simp_all add: result_stage_def cliErr_def)

lemma outcome_status_of:
  "outcome_status (outcome_of r) = (case r of Inl e \<Rightarrow> error | Inr b \<Rightarrow> if b then ok else violation)"
  by (simp add: outcome_of_def split: sum.splits)

lemma simulator_result_status:
  "simulator_result P env sim v out = (evs, r) \<Longrightarrow>
   status (result_stage r) = Some (outcome_status (outcome_of (evalResult out)))"
  by (auto simp: simulator_result_def Let_def split: Outcome.splits)

lemma simulator_result_side:
  "simulator_result P env sim v out = (evs, r) \<Longrightarrow>
   (\<exists>st. r = Inr st) = (outcome_of (evalResult out) = Outcome_ok)"
  by (auto simp: simulator_result_def Let_def cliErr_def split: Outcome.splits)

lemma runSimulator_after_setup:
  assumes "simulator_setup P env prev = Inr inp" "runSimulator P env prev = (evs, Inr r)"
  shows "\<exists>evs' sim. simulator_result P env sim (simulator_verbosity prev) (simulate P inp) = (evs', r)"
  using assms
  by (auto simp: runSimulator_def Let_def split: prod.splits sum.splits)

lemma simulator_setup_early_is_error:
  "simulator_setup P env prev = Inl r0 \<Longrightarrow> \<exists>e. r0 = Inl e"
  unfolding simulator_setup_def Let_def cliErr_def
  by (simp split: option.splits sum.splits) blast+

lemma outputResult_exit:
  "outputResult P env r = (evs, Inr c) \<Longrightarrow> c = (case r of Inl e \<Rightarrow> 1 | Inr st \<Rightarrow> 0)"
  by (auto simp: outputResult_def Let_def writeToJson_def split: sum.splits option.splits if_splits)

text \<open>
  C1. When \<^verbatim>\<open>runSimulator\<close> has called the evaluator and returns, the status of the stage it
  returns is \<open>error\<close> exactly when \<^verbatim>\<open>simulate\<close> returned a failure, \<open>ok\<close> exactly when it
  returned the boolean \<open>true\<close>, and \<open>violation\<close> exactly when it returned the boolean
  \<open>false\<close>; it is never \<open>failure\<close>.
\<close>

theorem runSimulator_status:
  assumes "simulator_setup P env prev = Inr inp"
      and "runSimulator P env prev = (evs, Inr r)"
  shows "\<exists>st. status (result_stage r) = Some st
           \<and> (st = error) = (\<exists>e. evalResult (simulate P inp) = Inl e)
           \<and> (st = ok) = (evalResult (simulate P inp) = Inr True)
           \<and> (st = violation) = (evalResult (simulate P inp) = Inr False)
           \<and> st \<noteq> failure"
proof -
  from runSimulator_after_setup [OF assms] obtain evs' sim where
    "simulator_result P env sim (simulator_verbosity prev) (simulate P inp) = (evs', r)"
    by blast
  then have "status (result_stage r)
      = Some (outcome_status (outcome_of (evalResult (simulate P inp))))"
    by (rule simulator_result_status)
  then show ?thesis
    by (cases "evalResult (simulate P inp)") (auto simp: outcome_status_of)
qed

theorem runSimulator_status_witness:
  "\<exists>inp evs r. simulator_setup demo_platform demo_env demo_stage = Inr inp
      \<and> runSimulator demo_platform demo_env demo_stage = (evs, Inr r)
      \<and> evalResult (simulate demo_platform inp) = Inr False
      \<and> status (result_stage r) = Some violation"
  using runSimulator_status [OF demo_setup_value demo_run_value] demo_setup_value demo_run_value
  by (simp add: demo_simulate_def)

text \<open>
  C2. For a run of the simulator that calls the evaluator and completes: \<^verbatim>\<open>runSimulator\<close>
  returns a success value exactly for the status \<open>ok\<close> and an error value exactly for the
  statuses \<open>violation\<close> and \<open>error\<close>, and \<^verbatim>\<open>outputResult\<close> ends the process with
  \<^verbatim>\<open>process.exit(0)\<close> on a success value and \<^verbatim>\<open>process.exit(1)\<close> on an error value.
\<close>

theorem exit_code_contract:
  assumes "runSimulator P env prev = (evs, Inr r)"
      and "outputResult P env r = (evs', Inr c)"
  shows "(c = 0) = (\<exists>st. r = Inr st) \<and> (c = 1) = (\<exists>e. r = Inl e)
       \<and> (case simulator_setup P env prev of
            Inl r0 \<Rightarrow> r = r0 \<and> (\<exists>e. r = Inl e)
          | Inr inp \<Rightarrow>
              ((\<exists>st. r = Inr st) = (status (result_stage r) = Some ok))
              \<and> ((\<exists>e. r = Inl e) = (status (result_stage r) = Some violation
                                      \<or> status (result_stage r) = Some error)))"
proof -
  have c: "c = (case r of Inl e \<Rightarrow> 1 | Inr st \<Rightarrow> 0)"
    using assms(2) by (rule outputResult_exit)
  have exit: "(c = 0) = (\<exists>st. r = Inr st) \<and> (c = 1) = (\<exists>e. r = Inl e)"
    using c by (cases r) auto
  show ?thesis
  proof (cases "simulator_setup P env prev")
    case (Inl r0)
    then have "r = r0"
      using assms(1) by (simp add: runSimulator_def)
    moreover have "\<exists>e. r0 = Inl e"
      using Inl by (rule simulator_setup_early_is_error)
    ultimately show ?thesis
      using exit Inl by auto
  next
    case (Inr inp)
    from runSimulator_after_setup [OF Inr assms(1)] obtain evs0 sim where
      sr: "simulator_result P env sim (simulator_verbosity prev) (simulate P inp) = (evs0, r)"
      by blast
    have st: "status (result_stage r)
        = Some (outcome_status (outcome_of (evalResult (simulate P inp))))"
      using sr by (rule simulator_result_status)
    have side: "(\<exists>st. r = Inr st) = (outcome_of (evalResult (simulate P inp)) = Outcome_ok)"
      using sr by (rule simulator_result_side)
    have "((\<exists>st. r = Inr st) = (status (result_stage r) = Some ok))
        \<and> ((\<exists>e. r = Inl e) = (status (result_stage r) = Some violation
                                \<or> status (result_stage r) = Some error))"
      using st side
      by (cases r; cases "outcome_of (evalResult (simulate P inp))") auto
    then show ?thesis
      using exit Inr by simp
  qed
qed

theorem exit_code_contract_witness:
  "\<exists>inp evs r evs'.
      simulator_setup demo_platform demo_env demo_stage = Inr inp
      \<and> runSimulator demo_platform demo_env demo_stage = (evs, Inr r)
      \<and> outputResult demo_platform demo_env r = (evs', Inr 1)
      \<and> status (result_stage r) = Some violation
      \<and> (\<exists>e. r = Inl e)"
  using exit_code_contract [OF demo_run_value demo_output_value]
    demo_setup_value demo_run_value demo_output_value
  by (simp add: cliErr_def)

subsection \<open>Configuration errors\<close>

lemma simulator_setup_main_missing:
  "find (\<lambda>m. mod_name m = guessMainModule prev) (modules prev) = None \<Longrightarrow>
   simulator_setup P env prev =
     Inl (cliErr ''Argument error''
            (prev\<lparr>errors := Some [mkErrorMessage P (sourceMap prev)
               \<lparr>code = ''QNT405'',
                message = ''Main module '' @ guessMainModule prev @ '' not found'',
                reference = None\<rparr>]\<rparr>))"
  by (simp add: simulator_setup_def Let_def)

lemma simulator_setup_seed_malformed:
  "find (\<lambda>m. mod_name m = guessMainModule prev) (modules prev) = Some main \<Longrightarrow>
   arg_seed (args prev) = Some t \<Longrightarrow> BigInt t = None \<Longrightarrow>
   simulator_setup P env prev =
     Inl (cliErr (''--seed must be a big integer, found: '' @ t)
            (prev\<lparr>stage := running, errors := Some []\<rparr>))"
  by (simp add: simulator_setup_def Let_def mkRng_def)

lemma runTests_main_missing:
  "find (\<lambda>m. mod_name m = guessMainModule prev) (modules prev) = None \<Longrightarrow>
   runTests P env prev =
     ([], Inr (cliErr ''Argument error''
            (prev\<lparr>stage := testing, errors := Some [mkErrorMessage P (sourceMap prev)
               \<lparr>code = ''QNT405'',
                message = ''Main module '' @ guessMainModule prev @ '' not found'',
                reference = None\<rparr>]\<rparr>)))"
  by (simp add: runTests_def Let_def)

lemma runTests_seed_malformed:
  "find (\<lambda>m. mod_name m = guessMainModule prev) (modules prev) = Some main \<Longrightarrow>
   arg_seed (args prev) = Some t \<Longrightarrow> BigInt t = None \<Longrightarrow>
   runTests P env prev =
     ([], Inr (cliErr (''--seed must be a big integer, found: '' @ t)
            (prev\<lparr>stage := testing, errors := Some []\<rparr>)))"
  by (simp add: runTests_def Let_def mkRng_def)

lemma runSimulator_early:
  "simulator_setup P env prev = Inl r \<Longrightarrow> runSimulator P env prev = ([], Inr r)"
  by (simp add: runSimulator_def)

lemma mkErrorMessage_simulate [simp]:
  "mkErrorMessage (P\<lparr>simulate := f\<rparr>) = mkErrorMessage P"
  "mkErrorMessage (P\<lparr>test := g\<rparr>) = mkErrorMessage P"
  by (simp_all add: mkErrorMessage_def fun_eq_iff)

text \<open>
  C4. When the seed argument does not parse as a big integer, or the main module is not
  among the parsed modules, \<^verbatim>\<open>runSimulator\<close> and \<^verbatim>\<open>runTests\<close> return an error value with no
  event before it: no evaluator is created, nothing is simulated or tested, and the value
  does not depend on the evaluator.
\<close>

theorem config_errors_before_evaluator:
  assumes "(\<exists>t. arg_seed (args prev) = Some t \<and> BigInt t = None)
           \<or> find (\<lambda>m. mod_name m = guessMainModule prev) (modules prev) = None"
  shows "(\<exists>e. runSimulator P env prev = ([], Inr (Inl e)))
       \<and> (\<exists>e. runTests P env prev = ([], Inr (Inl e)))
       \<and> runSimulator (P\<lparr>simulate := f\<rparr>) env prev = runSimulator P env prev
       \<and> runTests (P\<lparr>test := g\<rparr>) env prev = runTests P env prev"
proof (cases "find (\<lambda>m. mod_name m = guessMainModule prev) (modules prev)")
  case None
  show ?thesis
    by (simp add: runSimulator_early [OF simulator_setup_main_missing [OF None]]
        runTests_main_missing [OF None] cliErr_def)
next
  case (Some main)
  with assms obtain t where t: "arg_seed (args prev) = Some t" "BigInt t = None"
    by auto
  show ?thesis
    by (simp add: runSimulator_early [OF simulator_setup_seed_malformed [OF Some t]]
        runTests_seed_malformed [OF Some t] cliErr_def)
qed

theorem config_errors_before_evaluator_witness:
  "arg_seed (args (demo_stage\<lparr>args := demo_args\<lparr>arg_seed := Some ''12abc''\<rparr>\<rparr>)) = Some ''12abc''
   \<and> BigInt ''12abc'' = None
   \<and> (\<exists>e. runSimulator demo_platform demo_env
              (demo_stage\<lparr>args := demo_args\<lparr>arg_seed := Some ''12abc''\<rparr>\<rparr>) = ([], Inr (Inl e)))
   \<and> (\<exists>e. runTests demo_platform demo_env
              (demo_stage\<lparr>args := demo_args\<lparr>arg_seed := Some ''12abc''\<rparr>\<rparr>) = ([], Inr (Inl e)))"
  using config_errors_before_evaluator
    [of "demo_stage\<lparr>args := demo_args\<lparr>arg_seed := Some ''12abc''\<rparr>\<rparr>" demo_platform demo_env]
  by (simp add: BigInt_malformed)

subsection \<open>The seed of the generator\<close>

lemma mkRng_seeded:
  "BigInt t = Some v \<Longrightarrow> v \<noteq> 0 \<Longrightarrow> mkRng fresh (Some t) = Inr \<lparr>rng_state = v\<rparr>"
  by (simp add: mkRng_def newRng_def)

lemma mkRng_absent: "mkRng fresh None = Inr \<lparr>rng_state = fresh\<rparr>"
  by (simp add: mkRng_def newRng_def)

lemma mkRng_malformed:
  "BigInt t = None \<Longrightarrow> mkRng fresh (Some t) = Inl (''--seed must be a big integer, found: '' @ t)"
  by (simp add: mkRng_def)

text \<open>
  C5. The seed text \<^verbatim>\<open>0\<close> parses as the big integer \<open>0\<close>, yet \<^verbatim>\<open>mkRng\<close> answers with the
  generator of a fresh seed, as it does when no seed is given: the generator is not seeded
  with the integer the user supplied.
\<close>

theorem mkRng_seed_zero_is_fresh:
  "BigInt ''0'' = Some 0 \<and> mkRng fresh (Some ''0'') = Inr (newRng fresh None)
   \<and> rng_state (newRng fresh None) = fresh"
  by (simp add: mkRng_def newRng_def BigInt_eval)

subsection \<open>The header of an interchange trace\<close>

text \<open>
  C8, as amended. Every field of the given trace is in the result unchanged, and the
  result has no other field than those and \<^verbatim>\<open>#meta\<close>. When the trace has no \<^verbatim>\<open>#meta\<close> field
  of its own, \<^verbatim>\<open>#meta\<close> is the header, which holds the format \<^verbatim>\<open>ITF\<close>, the source, the status
  and the time stamp.
\<close>

theorem addItfHeader_fields:
  "(\<forall>k \<in> dom t. addItfHeader d n src st t k = t k)
   \<and> dom (addItfHeader d n src st t) = insert ''#meta'' (dom t)
   \<and> (''#meta'' \<notin> dom t \<longrightarrow>
        addItfHeader d n src st t ''#meta'' = Some (itfMeta d n src st))
   \<and> (\<exists>m. itfMeta d n src st = JObject m
          \<and> m ''format'' = Some (JString ''ITF'')
          \<and> m ''source'' = Some (JString src)
          \<and> m ''status'' = Some (JString st)
          \<and> m ''timestamp'' = Some (JNumber n))"
  by (auto simp: addItfHeader_def itfMeta_def map_add_def split: option.splits)

theorem addItfHeader_fields_witness:
  "''vars'' \<in> dom [''vars'' \<mapsto> JArray [JString ''x'']]
   \<and> ''#meta'' \<notin> dom [''vars'' \<mapsto> JArray [JString ''x'']]
   \<and> addItfHeader ''Mon Nov 02 2026'' 1040 ''spec.qnt'' ''violation''
        [''vars'' \<mapsto> JArray [JString ''x'']] ''vars'' = Some (JArray [JString ''x''])
   \<and> addItfHeader ''Mon Nov 02 2026'' 1040 ''spec.qnt'' ''violation''
        [''vars'' \<mapsto> JArray [JString ''x'']] ''#meta''
      = Some (itfMeta ''Mon Nov 02 2026'' 1040 ''spec.qnt'' ''violation'')"
  using addItfHeader_fields [of "[''vars'' \<mapsto> JArray [JString ''x'']]" "''Mon Nov 02 2026''" 1040
      "''spec.qnt''" "''violation''"]
  by simp

text \<open>
  C8 as stated fails for a trace that has a \<^verbatim>\<open>#meta\<close> field: the trace's field replaces the
  header.
\<close>

theorem addItfHeader_own_meta:
  "addItfHeader ''Mon Nov 02 2026'' 1040 ''spec.qnt'' ''ok''
      [''#meta'' \<mapsto> JNull, ''vars'' \<mapsto> JArray []] ''#meta'' = Some JNull
   \<and> addItfHeader ''Mon Nov 02 2026'' 1040 ''spec.qnt'' ''ok''
      [''#meta'' \<mapsto> JNull, ''vars'' \<mapsto> JArray []] ''#meta''
     \<noteq> Some (itfMeta ''Mon Nov 02 2026'' 1040 ''spec.qnt'' ''ok'')"
  by (simp add: addItfHeader_def itfMeta_def)

subsection \<open>Output templates\<close>

lemmas expand_eval = expandOutputTemplate_def expandNamedOutputTemplate_def PLACEHOLDERS_seq_def
  PLACEHOLDERS_test_def replaceAll_def number_toString_def digit_char_def toString_radix.simps

text \<open>
  C9. With automatic appending and no \<^verbatim>\<open>{seq}\<close>, the index goes before the first dot of the
  whole template: for a template whose directory part has a dot it lands in the
  directory part, not in the file name.
\<close>

theorem expandOutputTemplate_dotted_directory:
  "expandOutputTemplate ''./traces/out.itf.json'' 0 True = ''0./traces/out.itf.json''"
  by (simp add: expand_eval)

subsection \<open>The main module\<close>

text \<open>
  C10, as amended. For a stage whose default module name was set by \<^verbatim>\<open>parse\<close> from the
  modules \<open>ms\<close> of the source text: the main module is the \<^verbatim>\<open>--main\<close> argument when it is
  given and not empty; otherwise the name of the only module when \<open>ms\<close> has exactly
  one; otherwise \<^verbatim>\<open>basename(input, '.qnt')\<close>.
\<close>

theorem guessMainModule_precedence:
  assumes "defaultModuleName st = defaultModuleName_of ms"
  shows "guessMainModule st =
           (case arg_main (args st) of
              Some m \<Rightarrow> if m \<noteq> [] then m
                        else if length ms = 1 then mod_name (hd ms)
                        else basename (arg_input (args st)) ''.qnt''
            | None \<Rightarrow> if length ms = 1 then mod_name (hd ms)
                      else basename (arg_input (args st)) ''.qnt'')"
  using assms
  by (cases ms) (auto simp: guessMainModule_def defaultModuleName_of_def split: option.splits)

theorem guessMainModule_precedence_witness:
  "defaultModuleName (demo_stage\<lparr>defaultModuleName := None\<rparr>)
     = defaultModuleName_of [\<lparr>mod_name = ''a''\<rparr>, \<lparr>mod_name = ''b''\<rparr>]
   \<and> guessMainModule (demo_stage\<lparr>defaultModuleName := None\<rparr>) = ''counter''"
  using guessMainModule_precedence [of "demo_stage\<lparr>defaultModuleName := None\<rparr>"
      "[\<lparr>mod_name = ''a''\<rparr>, \<lparr>mod_name = ''b''\<rparr>]"]
  by (simp add: defaultModuleName_of_def demo_basename)

text \<open>
  C10 as stated fails when \<^verbatim>\<open>--main\<close> is given as the empty string: the main module is
  then the default module, not the argument.
\<close>

theorem guessMainModule_empty_main:
  "guessMainModule (demo_stage\<lparr>args := demo_args\<lparr>arg_main := Some []\<rparr>\<rparr>) = ''counter''
   \<and> guessMainModule (demo_stage\<lparr>args := demo_args\<lparr>arg_main := Some []\<rparr>\<rparr>) \<noteq> []"
  by (simp add: guessMainModule_def)

subsection \<open>Reproducibility\<close>

lemma BigInt_0: "BigInt ''0'' = Some 0"
  by (simp add: BigInt_eval)

lemma demo_seed_zero_setup:
  "simulator_setup demo_platform (demo_env\<lparr>fresh_seed := k\<rparr>)
      (demo_stage\<lparr>args := demo_args\<lparr>arg_seed := Some ''0''\<rparr>\<rparr>) =
     Inr \<lparr>sim_table = table demo_stage, sim_rng = \<lparr>rng_state = k\<rparr>, sim_verbosity = 2,
          sim_storeMetadata = arg_mbt demo_args, sim_numberOfTraces = Some 1,
          sim_init = QuintName ''init'', sim_step = QuintName ''step'',
          sim_invariant = QuintName ''inv'', sim_maxSamples = arg_maxSamples demo_args,
          sim_maxSteps = arg_maxSteps demo_args, sim_ntraces = 1\<rparr>"
  by (simp add: simulator_setup_def Let_def mkRng_def newRng_def BigInt_0 mergeInMany_def
      simulator_verbosity_def deriveVerbosity_def truthy_def guessMainModule_def)

lemma demo_seed_zero_run:
  "\<exists>evs r. runSimulator demo_platform (demo_env\<lparr>fresh_seed := k\<rparr>)
              (demo_stage\<lparr>args := demo_args\<lparr>arg_seed := Some ''0''\<rparr>\<rparr>) = (evs, Inr r)
           \<and> status (result_stage r) = Some (if even k then ok else violation)
           \<and> trace (result_stage r) = Some [QuintInt k]
           \<and> seed (result_stage r) = Some k"
  by (simp add: runSimulator_def demo_seed_zero_setup Let_def demo_simulate_def
      onTrace_simulator_def simulator_result_def outcome_of_def cliErr_def)

text \<open>
  C3. Two runs of the simulator on the same stage with the seed argument \<^verbatim>\<open>0\<close>, which differ
  only in the seed the environment supplies to \<^verbatim>\<open>newRng()\<close>: the evaluator is handed
  different generators, and the runs end with different statuses and traces.
\<close>

theorem seed_zero_runs_differ:
  "(\<exists>evs r. runSimulator demo_platform (demo_env\<lparr>fresh_seed := 1\<rparr>)
              (demo_stage\<lparr>args := demo_args\<lparr>arg_seed := Some ''0''\<rparr>\<rparr>) = (evs, Inr r)
           \<and> status (result_stage r) = Some violation
           \<and> trace (result_stage r) = Some [QuintInt 1])
   \<and> (\<exists>evs r. runSimulator demo_platform (demo_env\<lparr>fresh_seed := 2\<rparr>)
              (demo_stage\<lparr>args := demo_args\<lparr>arg_seed := Some ''0''\<rparr>\<rparr>) = (evs, Inr r)
           \<and> status (result_stage r) = Some ok
           \<and> trace (result_stage r) = Some [QuintInt 2])"
  using demo_seed_zero_run [of 1] demo_seed_zero_run [of 2]
  by auto

subsection \<open>The seed in the output\<close>

lemma startsWith_append [simp]: "startsWith (p @ s) p"
  by (induction p) auto

lemma includes_str_startsWith: "startsWith s p \<Longrightarrow> includes_str s p"
  by (cases s; cases p) auto

lemma includes_str_append: "includes_str (a @ p @ c) p"
proof (induction a)
  case Nil
  show ?case
    by (simp add: includes_str_startsWith)
next
  case (Cons x a)
  then show ?case
    by simp
qed



lemma seed_surfaced_append:
  "seed_surfaced s (xs @ ys) = (seed_surfaced s xs \<or> seed_surfaced s ys)"
  by (simp add: seed_surfaced_def list_ex_iff) blast












subsection \<open>The selection of tests\<close>

lemma demo_runTests_value:
  "runTests demo_platform demo_env demo_stage =
     ([ConsoleLog (CHR 0x0A # ''  counter''), NewEvaluator \<lparr>rng_state = 7\<rparr>,
       Test ''incrTest'', Test ''badTest'',
       ConsoleLog ''    ok incrTest passed 1 test(s)'',
       ConsoleLog ''    1) badTest failed after 1 test(s)'',
       ConsoleLog [],
       ConsoleLog ''  1 passing (42ms)'',
       ConsoleLog ''  1 failed'',
       ConsoleLog [],
       ConsoleLog ''  1) badTest:'',
       ConsoleLog ''      QNT511: Test returned false'',
       ConsoleLog ''    Use --seed=0x8 --match=badTest to repeat.'',
       ConsoleLog [],
       ConsoleLog (CHR 0x0A # ''  Use --verbosity=3 to show executions.''),
       ConsoleLog ''  Further debug with: quint test --verbosity=3 specs/counter.qnt''],
      Inr (cliErr ''Tests failed''
             (demo_stage\<lparr>stage := testing, passed := Some [''incrTest''],
                         failed := Some [''badTest''], ignored := Some [],
                         errors := Some []\<rparr>)))"
  by (simp add: runTests_def Let_def mkRng_def newRng_def BigInt_7 deriveVerbosity_def truthy_def
      demo_stage_def [THEN arg_cong [where f = definitionsByModule]]
      isMatchingTest_def endsWith_def demo_test_def report_tests_def namedErrors_of_def
      mkErrorMessage_def demo_platform_def [THEN arg_cong [where f = quintErrorToString]]
      number_toString_def digit_char_def int_toString_42 test_seed_line_def bigint_toString16_def
      toString_radix.simps)


lemma filter_testDefs_filter:
  "filter_testDefs P m ds = Inr ts \<Longrightarrow>
   ts = filter (\<lambda>d. def_kind d = ''def''
                \<and> isMatchingTest (regexp_exec P) m (def_name d) = Some True) ds"
  by (induction ds arbitrary: ts) (auto split: if_splits option.splits sum.splits)

lemma onTrace_tests_events:
  "onTrace_tests P env prev i name st_text vars states = (evs, r) \<Longrightarrow> Test n \<notin> set evs"
  by (auto simp: onTrace_tests_def Let_def writeToJson_def split: option.splits if_splits sum.splits)

lemma onTrace_calls_events:
  "onTrace_calls P env prev i calls = (evs, r) \<Longrightarrow> Test n \<notin> set evs"
proof (induction calls arbitrary: evs r)
  case Nil
  then show ?case by simp
next
  case (Cons call calls)
  obtain name st_text vars states where call: "call = (name, st_text, vars, states)"
    by (cases call) auto
  obtain e1 r1 where one: "onTrace_tests P env prev i name st_text vars states = (e1, r1)"
    by (cases "onTrace_tests P env prev i name st_text vars states") auto
  obtain e2 r2 where rest: "onTrace_calls P env prev i calls = (e2, r2)"
    by (cases "onTrace_calls P env prev i calls") auto
  have "Test n \<notin> set e1"
    using one by (rule onTrace_tests_events)
  moreover have "Test n \<notin> set e2"
    using rest by (rule Cons.IH)
  ultimately show ?case
    using Cons.prems call one rest by (auto split: sum.splits)
qed

lemma map_tests_events:
  "map_tests P env prev v rng i ds = (evs, r) \<Longrightarrow> Test n \<in> set evs \<Longrightarrow> n \<in> def_name ` set ds"
proof (induction ds arbitrary: evs r rng i)
  case Nil
  then show ?case by simp
next
  case (Cons d ds)
  let ?out = "test P \<lparr>ti_table = table prev, ti_rng = rng, ti_verbosity = v,
                        ti_def = d, ti_maxSamples = arg_maxSamples (args prev)\<rparr>"
  obtain e1 r1 where one: "onTrace_calls P env prev i (test_traces ?out) = (e1, r1)"
    by (cases "onTrace_calls P env prev i (test_traces ?out)") auto
  obtain e2 r2 where rest: "map_tests P env prev v (rng_after ?out) (Suc i) ds = (e2, r2)"
    by (cases "map_tests P env prev v (rng_after ?out) (Suc i) ds") auto
  have no: "Test n \<notin> set e1"
    using one by (rule onTrace_calls_events)
  have "set evs \<subseteq> insert (Test (def_name d)) (set e1 \<union> set e2)"
    using Cons.prems(1) one rest by (auto simp: Let_def split: sum.splits)
  with Cons.prems(2) no have "n = def_name d \<or> Test n \<in> set e2"
    by auto
  then show ?case
    using Cons.IH [OF rest] by auto
qed

lemma print_statuses_events: "Test n \<notin> set (print_statuses k rs)"
  by (induction rs arbitrary: k) auto

lemma print_frames_events: "Test n \<notin> set (print_frames i fs)"
  by (induction fs arbitrary: i) auto

lemma print_namedErrors_events: "Test n \<notin> set (print_namedErrors P v i nes)"
  by (induction nes arbitrary: i) (auto simp: print_frames_events)

lemma report_tests_events: "Test n \<notin> set (fst (report_tests P env st v rs))"
  by (auto simp: report_tests_def Let_def print_statuses_events print_namedErrors_events)

lemma isMatchingTest_cases:
  "isMatchingTest rx m n = (if truthy m then rx (the m) n else Some (endsWith n ''Test''))"
  by (simp add: isMatchingTest_def truthy_def split: option.splits)

text \<open>
  Every definition that \<^verbatim>\<open>runTests\<close> hands to the evaluator is a definition of the main
  module of kind \<^verbatim>\<open>def\<close> whose name matches: the regular expression of \<^verbatim>\<open>--match\<close> when
  that is given and not empty, the ending \<^verbatim>\<open>Test\<close> otherwise.
\<close>

theorem runTests_runs_only_matching:
  assumes "runTests P env prev = (evs, r)" and "Test n \<in> set evs"
  shows "\<exists>byName d. definitionsByModule prev (guessMainModule prev) = Some byName
           \<and> d \<in> set (concat (map snd byName)) \<and> def_name d = n \<and> def_kind d = ''def''
           \<and> isMatchingTest (regexp_exec P) (arg_match (args prev)) n = Some True
           \<and> isMatchingTest (regexp_exec P) (arg_match (args prev)) n =
               (if truthy (arg_match (args prev))
                then regexp_exec P (the (arg_match (args prev))) n
                else Some (endsWith n ''Test''))"
proof -
  let ?main = "guessMainModule prev"
  let ?v = "deriveVerbosity (args prev)"
  obtain m where m: "find (\<lambda>m. mod_name m = ?main) (modules prev) = Some m"
    using assms by (cases "find (\<lambda>m. mod_name m = ?main) (modules prev)")
      (auto simp: runTests_def Let_def)
  obtain rng where rng: "mkRng (fresh_seed env) (arg_seed (args prev)) = Inr rng"
    using assms m by (cases "mkRng (fresh_seed env) (arg_seed (args prev))")
      (auto simp: runTests_def Let_def)
  obtain byName where byName: "definitionsByModule prev ?main = Some byName"
    using assms m rng by (cases "definitionsByModule prev ?main")
      (auto simp: runTests_def Let_def)
  let ?defs = "concat (map snd byName)"
  obtain testDefs where testDefs: "filter_testDefs P (arg_match (args prev)) ?defs = Inr testDefs"
    using assms m rng byName by (cases "filter_testDefs P (arg_match (args prev)) ?defs")
      (auto simp: runTests_def Let_def)
  obtain tevs tr where tests: "map_tests P env prev ?v rng 0 testDefs = (tevs, tr)"
    by (cases "map_tests P env prev ?v rng 0 testDefs") auto
  have "Test n \<in> set tevs"
  proof (cases tr)
    case (Inl x)
    with assms m rng byName testDefs tests show ?thesis
      by (auto simp: runTests_def Let_def split: if_splits)
  next
    case (Inr results)
    obtain revs res where rep:
      "report_tests P env (prev\<lparr>stage := testing\<rparr>) ?v results = (revs, res)"
      by (cases "report_tests P env (prev\<lparr>stage := testing\<rparr>) ?v results") auto
    have "Test n \<notin> set revs"
      using report_tests_events [of n P env "prev\<lparr>stage := testing\<rparr>" ?v results] rep by simp
    with Inr assms m rng byName testDefs tests rep show ?thesis
      by (auto simp: runTests_def Let_def split: if_splits)
  qed
  then have "n \<in> def_name ` set testDefs"
    using tests by (rule map_tests_events [rotated])
  then obtain d where "d \<in> set testDefs" "def_name d = n"
    by auto
  then have "d \<in> set ?defs \<and> def_name d = n \<and> def_kind d = ''def''
      \<and> isMatchingTest (regexp_exec P) (arg_match (args prev)) n = Some True"
    using filter_testDefs_filter [OF testDefs] by auto
  with byName show ?thesis
    using isMatchingTest_cases [of "regexp_exec P" "arg_match (args prev)" n] by blast
qed

theorem runTests_runs_only_matching_witness:
  "Test ''incrTest'' \<in> set (fst (runTests demo_platform demo_env demo_stage))
   \<and> isMatchingTest (regexp_exec demo_platform) (arg_match (args demo_stage)) ''incrTest''
       = Some True
   \<and> endsWith ''incrTest'' ''Test''"
  using runTests_runs_only_matching [of demo_platform demo_env demo_stage
      "fst (runTests demo_platform demo_env demo_stage)"
      "snd (runTests demo_platform demo_env demo_stage)" "''incrTest''"]
  by (auto simp: demo_runTests_value truthy_def endsWith_def isMatchingTest_def)

subsection \<open>Runs with a seed that is not zero\<close>

lemma simulator_setup_seeded:
  "arg_seed (args prev) = Some t \<Longrightarrow> BigInt t = Some v \<Longrightarrow> v \<noteq> 0 \<Longrightarrow>
   simulator_setup P env1 prev = simulator_setup P env2 prev"
  by (simp add: simulator_setup_def Let_def mkRng_def newRng_def split: option.splits)

lemma simulator_result_value:
  "snd (simulator_result P env1 sim v out) = snd (simulator_result P env2 sim v out)"
  by (simp add: simulator_result_def Let_def split: Outcome.splits)

lemma runSimulator_value:
  assumes "simulator_setup P env prev = Inr inp" and "runSimulator P env prev = (evs, Inr r)"
  shows "r = snd (simulator_result P env
                    (prev\<lparr>stage := running,
                          seed := (case bestTraces (simulate P inp) of
                                     [] \<Rightarrow> None | t # ts \<Rightarrow> Some (trace_seed t))\<rparr>)
                    (simulator_verbosity prev) (simulate P inp))"
  using assms
  by (auto simp: runSimulator_def Let_def split: prod.splits sum.splits)

text \<open>
  With a seed argument that parses to an integer other than zero, the generator and the
  arguments handed to the evaluator do not depend on the environment, and two runs that
  return give the same value: the same status, trace, seed and errors.
\<close>

theorem runSimulator_reproducible:
  assumes "arg_seed (args prev) = Some t" and "BigInt t = Some v" and "v \<noteq> 0"
      and "runSimulator P env1 prev = (evs1, Inr r1)"
      and "runSimulator P env2 prev = (evs2, Inr r2)"
  shows "simulator_setup P env1 prev = simulator_setup P env2 prev \<and> r1 = r2"
proof -
  have same: "simulator_setup P env1 prev = simulator_setup P env2 prev"
    using assms(1-3) by (rule simulator_setup_seeded)
  show ?thesis
  proof (cases "simulator_setup P env1 prev")
    case (Inl r0)
    with same have two: "simulator_setup P env2 prev = Inl r0"
      by simp
    show ?thesis
      using same assms(4,5) by (simp add: runSimulator_def Inl two)
  next
    case (Inr inp)
    with same have two: "simulator_setup P env2 prev = Inr inp"
      by simp
    show ?thesis
      using same runSimulator_value [OF Inr assms(4)] runSimulator_value [OF two assms(5)]
        simulator_result_value [of P env1 _ _ _ env2]
      by simp
  qed
qed

theorem runSimulator_reproducible_witness:
  "\<exists>evs1 evs2 r. runSimulator demo_platform demo_env demo_stage = (evs1, Inr r)
      \<and> runSimulator demo_platform (demo_env\<lparr>fresh_seed := 99, now_end := 5000\<rparr>) demo_stage
          = (evs2, Inr r)
      \<and> status (result_stage r) = Some violation
      \<and> trace (result_stage r) = Some [QuintInt 7]"
proof -
  have two: "\<exists>evs2 r2. runSimulator demo_platform (demo_env\<lparr>fresh_seed := 99, now_end := 5000\<rparr>)
      demo_stage = (evs2, Inr r2)"
    by (simp add: runSimulator_def simulator_setup_def Let_def mkRng_def newRng_def BigInt_7
        mergeInMany_def demo_simulate_def onTrace_simulator_def simulator_result_def
        outcome_of_def cliErr_def)
  then obtain evs2 r2 where
    r2: "runSimulator demo_platform (demo_env\<lparr>fresh_seed := 99, now_end := 5000\<rparr>) demo_stage
      = (evs2, Inr r2)"
    by blast
  have "cliErr ''Invariant violated''
          (demo_stage\<lparr>stage := running, seed := Some 7, status := Some violation,
                      trace := Some [QuintInt 7], errors := Some []\<rparr>) = r2"
    using runSimulator_reproducible [OF _ BigInt_7 _ demo_run_value r2] by simp
  with r2 demo_run_value show ?thesis
    by auto
qed

text \<open>
  \<^verbatim>\<open>mkRng\<close> in full: a fresh seed when no seed is given or the seed parses to zero, the
  parsed integer otherwise, and the message when the text does not parse.
\<close>

theorem mkRng_result:
  "mkRng fresh seedText =
     (case seedText of
        None \<Rightarrow> Inr \<lparr>rng_state = fresh\<rparr>
      | Some t \<Rightarrow>
          (case BigInt t of
             None \<Rightarrow> Inl (''--seed must be a big integer, found: '' @ t)
           | Some v \<Rightarrow> Inr \<lparr>rng_state = (if v = 0 then fresh else v)\<rparr>))"
  by (simp add: mkRng_def newRng_def split: option.splits)

subsection \<open>Output templates in general\<close>

lemma getSubstitution_plain:
  "CHR ''$'' \<notin> set r \<Longrightarrow> getSubstitution m b a r = r"
  by (induction m b a r rule: getSubstitution.induct) auto

lemma replaceAll_from_absent:
  "\<not> includes_str s p \<Longrightarrow> replaceAll_from p r b s = s"
  by (induction s arbitrary: b) auto

lemma startsWith_disjoint:
  "startsWith (r @ t) q \<Longrightarrow> r \<noteq> [] \<Longrightarrow> set r \<inter> set q = {} \<Longrightarrow> q = []"
  by (cases r; cases q) auto

lemma includes_str_skip:
  "set r \<inter> set p = {} \<Longrightarrow> p \<noteq> [] \<Longrightarrow> includes_str (r @ t) p = includes_str t p"
proof (induction r)
  case Nil
  show ?case by simp
next
  case (Cons x r)
  then have "\<not> startsWith (x # r @ t) p"
    by (cases p) auto
  with Cons show ?case
    by simp
qed

lemma replaceAll_from_prefix:
  "CHR ''$'' \<notin> set r \<Longrightarrow> r \<noteq> [] \<Longrightarrow> set r \<inter> set q = {} \<Longrightarrow>
   startsWith (replaceAll_from p r b s) q \<Longrightarrow> startsWith s q"
proof (induction s arbitrary: b q)
  case Nil
  then show ?case
    by (cases q) auto
next
  case (Cons c cs)
  show ?case
  proof (cases "p \<noteq> [] \<and> startsWith (c # cs) p")
    case True
    with Cons.prems have "startsWith (r @ replaceAll_from p r (b @ p) (drop (length p - 1) cs)) q"
      by (simp add: getSubstitution_plain)
    then have "q = []"
      using Cons.prems(2,3) by (rule startsWith_disjoint)
    then show ?thesis
      by simp
  next
    case False
    show ?thesis
    proof (cases q)
      case Nil
      then show ?thesis by simp
    next
      case (Cons d q')
      with False Cons.prems have "c = d" and "startsWith (replaceAll_from p r (b @ [c]) cs) q'"
        by auto
      moreover have "set r \<inter> set q' = {}"
        using Cons.prems(3) Cons by auto
      ultimately show ?thesis
        using Cons.IH [OF Cons.prems(1,2)] Cons by auto
    qed
  qed
qed

lemma replaceAll_from_no_occurrence:
  "CHR ''$'' \<notin> set r \<Longrightarrow> r \<noteq> [] \<Longrightarrow> set r \<inter> set p = {} \<Longrightarrow> p \<noteq> [] \<Longrightarrow>
   \<not> includes_str (replaceAll_from p r b s) p"
proof (induction p r b s rule: replaceAll_from.induct)
  case (1 p r pre)
  then show ?case by simp
next
  case (2 p r pre c cs)
  show ?case
  proof (cases "startsWith (c # cs) p")
    case True
    with 2 have "\<not> includes_str (replaceAll_from p r (pre @ p) (drop (length p - 1) cs)) p"
      by simp
    with 2 True show ?thesis
      by (simp add: getSubstitution_plain includes_str_skip)
  next
    case False
    with 2 have ih: "\<not> includes_str (replaceAll_from p r (pre @ [c]) cs) p"
      by simp
    have "\<not> startsWith (c # replaceAll_from p r (pre @ [c]) cs) p"
    proof
      assume sw: "startsWith (c # replaceAll_from p r (pre @ [c]) cs) p"
      obtain d p' where p: "p = d # p'"
        using 2 by (cases p) auto
      with sw have "c = d" and "startsWith (replaceAll_from p r (pre @ [c]) cs) p'"
        by auto
      moreover have "set r \<inter> set p' = {}"
        using 2 p by auto
      ultimately have "startsWith cs p'"
        using replaceAll_from_prefix [of r p' p "pre @ [c]" cs] 2 by simp
      with \<open>c = d\<close> p False show False
        by simp
    qed
    with ih False show ?thesis
      by simp
  qed
qed

lemma replaceAll_from_scanned:
  "CHR ''$'' \<notin> set r \<Longrightarrow> replaceAll_from p r b s = replaceAll_from p r b' s"
proof (induction s arbitrary: b b' rule: length_induct)
  case (1 s)
  show ?case
  proof (cases s)
    case Nil
    then show ?thesis by simp
  next
    case (Cons c cs)
    have short: "length (drop (length p - 1) cs) < length s" "length cs < length s"
      using Cons by simp_all
    show ?thesis
      using Cons 1(2) 1(1) [rule_format, OF short(1) 1(2), of "b @ p" "b' @ p"]
        1(1) [rule_format, OF short(2) 1(2), of "b @ [c]" "b' @ [c]"]
      by (auto simp: getSubstitution_plain)
  qed
qed

lemma replaceAll_from_first:
  "p \<noteq> [] \<Longrightarrow> hd p \<notin> set pre \<Longrightarrow>
   replaceAll_from p r b (pre @ p @ post) =
     pre @ getSubstitution p (b @ pre) post r @ replaceAll_from p r (b @ pre @ p) post"
proof (induction pre arbitrary: b)
  case Nil
  then obtain d p' where p: "p = d # p'"
    by (cases p) auto
  then show ?case
    by simp
next
  case (Cons x pre)
  then have "\<not> startsWith (x # pre @ p @ post) p"
    by (cases p) auto
  with Cons show ?case
    by simp
qed

lemma digit_char_decimal: "d < 10 \<Longrightarrow> digit_char d \<in> set ''0123456789''"
  by (auto simp: digit_char_def less_Suc_eq numeral_eq_Suc)

lemma toString_radix_decimal: "set (toString_radix 10 n) \<subseteq> set ''0123456789''"
proof (induction "10::nat" n rule: toString_radix.induct)
  case (1 n)
  show ?case
  proof (cases "n < 10")
    case True
    then show ?thesis
      using digit_char_decimal [of n] by (subst toString_radix.simps) simp
  next
    case False
    moreover have "digit_char (n mod 10) \<in> set ''0123456789''"
      by (rule digit_char_decimal) simp
    ultimately show ?thesis
      using 1 by (subst toString_radix.simps) auto
  qed
qed

lemma toString_radix_nonempty: "toString_radix b n \<noteq> []"
  by (subst toString_radix.simps) simp

lemma number_toString_plain:
  "CHR ''$'' \<notin> set (number_toString i)" "number_toString i \<noteq> []"
  "set (number_toString i) \<inter> set ''{seq}'' = {}"
  "set (number_toString i) \<inter> set ''{test}'' = {}"
  using toString_radix_decimal [of i] toString_radix_nonempty [of 10 i]
  by (auto simp: number_toString_def)

lemma split_nonempty: "split t sep \<noteq> []"
  by (induction t) (auto split: list.splits)

lemma join_Cons_Cons: "ps \<noteq> [] \<Longrightarrow> join (p # ps) sep = p @ sep @ join ps sep"
  by (cases ps) auto

lemma join_split: "join (split t sep) [sep] = t"
proof (induction t)
  case Nil
  show ?case by simp
next
  case (Cons c cs)
  obtain p ps where sp: "split cs sep = p # ps"
    using split_nonempty [of cs sep] by (cases "split cs sep") auto
  with Cons show ?case
    by (cases ps) auto
qed

lemma join_split_first:
  "(case split t sep of [] \<Rightarrow> z | p # ps \<Rightarrow> join ((p @ x) # ps) [sep]) =
     takeWhile (\<lambda>c. c \<noteq> sep) t @ x @ dropWhile (\<lambda>c. c \<noteq> sep) t"
proof (induction t)
  case Nil
  show ?case by simp
next
  case (Cons c cs)
  obtain p ps where sp: "split cs sep = p # ps"
    using split_nonempty [of cs sep] by (cases "split cs sep") auto
  show ?case
  proof (cases "c = sep")
    case True
    have "join (x # split cs sep) [sep] = x @ [sep] @ join (split cs sep) [sep]"
      using split_nonempty by (rule join_Cons_Cons)
    with True show ?thesis
      by (simp add: join_split)
  next
    case False
    with Cons sp show ?thesis
      by (cases ps) auto
  qed
qed

text \<open>
  \<^verbatim>\<open>expandOutputTemplate\<close>: when the template has \<^verbatim>\<open>{seq}\<close>, the result has none left, and
  a first \<^verbatim>\<open>{seq}\<close> after text without a brace becomes the index in decimal; when it has
  none, the index goes before the first dot of the template (at the end if there is no
  dot) with automatic appending, and the template is returned as it is without.
\<close>

theorem expandOutputTemplate_cases:
  "(includes_str template ''{seq}'' \<longrightarrow>
      \<not> includes_str (expandOutputTemplate template index autoAppend) ''{seq}'')
   \<and> (CHR ''{'' \<notin> set pre \<longrightarrow>
      expandOutputTemplate (pre @ ''{seq}'' @ post) index autoAppend =
        pre @ number_toString index @ replaceAll post ''{seq}'' (number_toString index))
   \<and> (\<not> includes_str template ''{seq}'' \<and> autoAppend \<longrightarrow>
      expandOutputTemplate template index autoAppend =
        takeWhile (\<lambda>c. c \<noteq> CHR ''.'') template @ number_toString index
        @ dropWhile (\<lambda>c. c \<noteq> CHR ''.'') template)
   \<and> (\<not> includes_str template ''{seq}'' \<and> \<not> autoAppend \<longrightarrow>
      expandOutputTemplate template index autoAppend = template)"
proof (intro conjI impI)
  assume "includes_str template ''{seq}''"
  then show "\<not> includes_str (expandOutputTemplate template index autoAppend) ''{seq}''"
    using replaceAll_from_no_occurrence [of "number_toString index" "''{seq}''" "[]" template]
      number_toString_plain [of index]
    by (simp add: expandOutputTemplate_def PLACEHOLDERS_seq_def replaceAll_def)
next
  assume pre: "CHR ''{'' \<notin> set pre"
  have inc: "includes_str (pre @ ''{seq}'' @ post) ''{seq}''"
    by (rule includes_str_append)
  have "replaceAll_from ''{seq}'' (number_toString index) [] (pre @ ''{seq}'' @ post) =
      pre @ getSubstitution ''{seq}'' ([] @ pre) post (number_toString index)
      @ replaceAll_from ''{seq}'' (number_toString index) ([] @ pre @ ''{seq}'') post"
    using pre by (intro replaceAll_from_first) simp_all
  moreover have "replaceAll_from ''{seq}'' (number_toString index) (pre @ ''{seq}'') post
      = replaceAll_from ''{seq}'' (number_toString index) [] post"
    using number_toString_plain(1) by (rule replaceAll_from_scanned)
  ultimately show "expandOutputTemplate (pre @ ''{seq}'' @ post) index autoAppend =
        pre @ number_toString index @ replaceAll post ''{seq}'' (number_toString index)"
    using inc number_toString_plain [of index]
    by (simp add: expandOutputTemplate_def PLACEHOLDERS_seq_def replaceAll_def
        getSubstitution_plain del: includes_str.simps)
next
  assume "\<not> includes_str template ''{seq}'' \<and> autoAppend"
  then show "expandOutputTemplate template index autoAppend =
        takeWhile (\<lambda>c. c \<noteq> CHR ''.'') template @ number_toString index
        @ dropWhile (\<lambda>c. c \<noteq> CHR ''.'') template"
    using join_split_first [where t = template and sep = "CHR ''.''" and x = "number_toString index"]
    by (simp add: expandOutputTemplate_def PLACEHOLDERS_seq_def)
next
  assume "\<not> includes_str template ''{seq}'' \<and> \<not> autoAppend"
  then show "expandOutputTemplate template index autoAppend = template"
    by (simp add: expandOutputTemplate_def PLACEHOLDERS_seq_def)
qed

theorem expandOutputTemplate_cases_witness:
  "includes_str ''run_{seq}.itf.json'' ''{seq}''
   \<and> \<not> includes_str (expandOutputTemplate ''run_{seq}.itf.json'' 12 True) ''{seq}''
   \<and> expandOutputTemplate ''run_{seq}.itf.json'' 12 True = ''run_12.itf.json''
   \<and> \<not> includes_str ''out.itf.json'' ''{seq}''
   \<and> expandOutputTemplate ''out.itf.json'' 3 True = ''out3.itf.json''
   \<and> expandOutputTemplate ''out.itf.json'' 3 False = ''out.itf.json''"
  using expandOutputTemplate_cases [of "''run_{seq}.itf.json''" 12 True "''run_''" "''.itf.json''"]
    expandOutputTemplate_cases [of "''out.itf.json''" 3 True "[]" "[]"]
    expandOutputTemplate_cases [of "''out.itf.json''" 3 False "[]" "[]"]
  by (simp add: replaceAll_def number_toString_def digit_char_def toString_radix.simps)

text \<open>
  \<^verbatim>\<open>expandNamedOutputTemplate\<close> for a test name without a dollar sign: a first \<^verbatim>\<open>{test}\<close>
  after text without a brace becomes the name, and a template without \<^verbatim>\<open>{test}\<close> is expanded
  as it is.
\<close>

theorem expandNamedOutputTemplate_cases:
  "(CHR ''$'' \<notin> set name \<and> CHR ''{'' \<notin> set pre \<longrightarrow>
      expandNamedOutputTemplate (pre @ ''{test}'' @ post) name index autoAppend =
        expandOutputTemplate (pre @ name @ replaceAll post ''{test}'' name) index autoAppend)
   \<and> (\<not> includes_str template ''{test}'' \<longrightarrow>
      expandNamedOutputTemplate template name index autoAppend =
        expandOutputTemplate template index autoAppend)"
proof (intro conjI impI)
  assume a: "CHR ''$'' \<notin> set name \<and> CHR ''{'' \<notin> set pre"
  then have "replaceAll_from ''{test}'' name [] (pre @ ''{test}'' @ post) =
      pre @ getSubstitution ''{test}'' ([] @ pre) post name
      @ replaceAll_from ''{test}'' name ([] @ pre @ ''{test}'') post"
    by (intro replaceAll_from_first) simp_all
  moreover have "replaceAll_from ''{test}'' name (pre @ ''{test}'') post
      = replaceAll_from ''{test}'' name [] post"
    using a by (intro replaceAll_from_scanned) simp
  ultimately show "expandNamedOutputTemplate (pre @ ''{test}'' @ post) name index autoAppend =
        expandOutputTemplate (pre @ name @ replaceAll post ''{test}'' name) index autoAppend"
    using a by (simp add: expandNamedOutputTemplate_def PLACEHOLDERS_test_def replaceAll_def
        getSubstitution_plain)
next
  assume "\<not> includes_str template ''{test}''"
  then show "expandNamedOutputTemplate template name index autoAppend =
        expandOutputTemplate template index autoAppend"
    by (simp add: expandNamedOutputTemplate_def PLACEHOLDERS_test_def replaceAll_def
        replaceAll_from_absent)
qed

theorem expandNamedOutputTemplate_cases_witness:
  "CHR ''$'' \<notin> set ''incrTest'' \<and> CHR ''{'' \<notin> set ''traces_''
   \<and> expandNamedOutputTemplate ''traces_{test}_{seq}.itf.json'' ''incrTest'' 0 False
       = ''traces_incrTest_0.itf.json''
   \<and> \<not> includes_str ''out.itf.json'' ''{test}''
   \<and> expandNamedOutputTemplate ''out.itf.json'' ''incrTest'' 2 True = ''out2.itf.json''"
  using expandNamedOutputTemplate_cases [of "''incrTest''" "''traces_''" "''_{seq}.itf.json''" 0
      False "''out.itf.json''"]
    expandNamedOutputTemplate_cases [of "''incrTest''" "''traces_''" "''_{seq}.itf.json''" 2
      True "''out.itf.json''"]
  by (simp add: expand_eval)

subsection \<open>The main module named after the file\<close>

lemma basename_scan_component:
  assumes "extIdx st < 0" and "firstNonSlashEnd st \<noteq> - 1"
      and "\<forall>j. k \<le> j \<and> j < k + m \<longrightarrow> path ! j \<noteq> CHR ''/''"
  shows "basename_scan path suffix (k + m) st = basename_scan path suffix k st"
  using assms
proof (induction m)
  case 0
  show ?case by simp
next
  case (Suc m)
  then have "path ! (k + m) \<noteq> CHR ''/''"
    by simp
  with Suc show ?case
    by (simp add: Let_def)
qed

lemma basename_scan_qnt:
  assumes "path ! k = CHR ''.''" and "path ! Suc k = CHR ''q''"
      and "path ! Suc (Suc k) = CHR ''n''" and "path ! Suc (Suc (Suc k)) = CHR ''t''"
  shows "basename_scan path ''.qnt'' (Suc (Suc (Suc (Suc k))))
           \<lparr>bn_start = 0, bn_end = - 1, matchedSlash = True, extIdx = 3,
            firstNonSlashEnd = - 1\<rparr> =
         basename_scan path ''.qnt'' k
           \<lparr>bn_start = 0, bn_end = int k, matchedSlash = False, extIdx = - 1,
            firstNonSlashEnd = int k + 4\<rparr>"
  using assms by (simp add: Let_def add.commute)

lemma basename_suffix_branch:
  assumes "suffix \<noteq> []" and "length suffix \<le> length path" and "suffix \<noteq> path"
      and "basename_scan path suffix (length path)
             \<lparr>bn_start = 0, bn_end = - 1, matchedSlash = True,
              extIdx = int (length suffix) - 1, firstNonSlashEnd = - 1\<rparr> = st"
  shows "basename path suffix =
           slice path (bn_start st)
             (if bn_start st = bn_end st then firstNonSlashEnd st
              else if bn_end st = - 1 then int (length path) else bn_end st)"
  using assms by (simp add: basename_def Let_def)

lemma basename_qnt:
  assumes "stem \<noteq> []" and "CHR ''/'' \<notin> set stem" and "dir = [] \<or> last dir = CHR ''/''"
  shows "basename (dir @ stem @ ''.qnt'') ''.qnt'' = stem"
proof -
  let ?path = "dir @ stem @ ''.qnt''"
  let ?k = "length dir + length stem"
  let ?st4 = "\<lparr>bn_start = 0, bn_end = int ?k, matchedSlash = False, extIdx = - 1,
               firstNonSlashEnd = int ?k + 4\<rparr>"
  have len: "length ?path = Suc (Suc (Suc (Suc ?k)))"
    by simp
  have chars: "?path ! ?k = CHR ''.''" "?path ! Suc ?k = CHR ''q''"
    "?path ! Suc (Suc ?k) = CHR ''n''" "?path ! Suc (Suc (Suc ?k)) = CHR ''t''"
    by (simp_all add: nth_append)
  have ext: "int (length ''.qnt'') - 1 = 3"
    by simp
  have one: "basename_scan ?path ''.qnt'' (length ?path)
      \<lparr>bn_start = 0, bn_end = - 1, matchedSlash = True, extIdx = int (length ''.qnt'') - 1,
       firstNonSlashEnd = - 1\<rparr>
      = basename_scan ?path ''.qnt'' ?k ?st4"
    unfolding len ext using chars by (rule basename_scan_qnt)
  have "\<forall>j. length dir \<le> j \<and> j < length dir + length stem \<longrightarrow> ?path ! j \<noteq> CHR ''/''"
    using assms(2) by (auto simp: nth_append dest: nth_mem)
  then have two: "basename_scan ?path ''.qnt'' ?k ?st4
      = basename_scan ?path ''.qnt'' (length dir) ?st4"
    by (intro basename_scan_component) simp_all
  have three: "basename_scan ?path ''.qnt'' (length dir) ?st4 = ?st4\<lparr>bn_start := int (length dir)\<rparr>"
  proof (cases dir rule: rev_cases)
    case Nil
    then show ?thesis by simp
  next
    case (snoc d x)
    with assms(3) have "x = CHR ''/''"
      by simp
    with snoc show ?thesis
      by (simp add: nth_append)
  qed
  have scan: "basename_scan ?path ''.qnt'' (length ?path)
      \<lparr>bn_start = 0, bn_end = - 1, matchedSlash = True, extIdx = int (length ''.qnt'') - 1,
       firstNonSlashEnd = - 1\<rparr> = ?st4\<lparr>bn_start := int (length dir)\<rparr>"
    by (simp only: one two three)
  have ne: "''.qnt'' \<noteq> ?path"
  proof
    assume "''.qnt'' = ?path"
    then have "length ''.qnt'' = length ?path"
      by (rule arg_cong)
    with assms(1) show False
      by simp
  qed
  have "basename ?path ''.qnt'' =
      slice ?path (bn_start (?st4\<lparr>bn_start := int (length dir)\<rparr>))
        (if bn_start (?st4\<lparr>bn_start := int (length dir)\<rparr>)
            = bn_end (?st4\<lparr>bn_start := int (length dir)\<rparr>)
         then firstNonSlashEnd (?st4\<lparr>bn_start := int (length dir)\<rparr>)
         else if bn_end (?st4\<lparr>bn_start := int (length dir)\<rparr>) = - 1
         then int (length ?path)
         else bn_end (?st4\<lparr>bn_start := int (length dir)\<rparr>))"
    by (rule basename_suffix_branch [OF _ _ ne scan]) simp_all
  also have "\<dots> = slice ?path (int (length dir)) (int ?k)"
    using assms(1) by simp
  also have "\<dots> = stem"
    by (simp add: slice_def)
  finally show ?thesis .
qed

text \<open>
  Without \<^verbatim>\<open>--main\<close> and without a default module, the main module of the input
  \<^verbatim>\<open>dir/stem.qnt\<close> (or \<^verbatim>\<open>stem.qnt\<close>) is \<open>stem\<close>.
\<close>

theorem guessMainModule_from_file:
  assumes "\<not> truthy (arg_main (args st))" and "defaultModuleName st = None"
      and "arg_input (args st) = dir @ stem @ ''.qnt''"
      and "stem \<noteq> []" and "CHR ''/'' \<notin> set stem" and "dir = [] \<or> last dir = CHR ''/''"
  shows "guessMainModule st = stem"
  using assms basename_qnt [of stem dir]
  by (auto simp: guessMainModule_def truthy_def split: option.splits)

theorem guessMainModule_from_file_witness:
  "\<not> truthy (arg_main (args (demo_stage\<lparr>defaultModuleName := None\<rparr>)))
   \<and> arg_input (args (demo_stage\<lparr>defaultModuleName := None\<rparr>)) = ''specs/'' @ ''counter'' @ ''.qnt''
   \<and> guessMainModule (demo_stage\<lparr>defaultModuleName := None\<rparr>) = ''counter''"
  using guessMainModule_from_file [of "demo_stage\<lparr>defaultModuleName := None\<rparr>" "''specs/''"
      "''counter''"]
  by (simp add: truthy_def)

end
